theory Spec2Isabelle
  imports Main
begin

section \<open>JavaScript values read by \<open>src/utils/Rendezvous.ts\<close>\<close>

text \<open>
  An optional string (\<open>string | undefined\<close>) is a \<open>string option\<close>. The source tests such
  values with \<open>if (x)\<close> and \<open>if (!x)\<close>: \<open>undefined\<close> and the empty string are both falsy.
  \<open>truthy_string\<close> gives the string back when the test \<open>if (x)\<close> succeeds.
\<close>

definition truthy_string :: "string option \<Rightarrow> string option" where
  "truthy_string v = (case v of None \<Rightarrow> None | Some s \<Rightarrow> (if s = [] then None else Some s))"

definition truthy :: "string option \<Rightarrow> bool" where
  "truthy v = (truthy_string v \<noteq> None)"

text \<open>
  String conversion of an optional string, as done by \<open>+\<close> on strings and by a property
  access \<open>obj[key]\<close>: \<open>undefined\<close> becomes the text \<open>undefined\<close>.
\<close>

definition String_of :: "string option \<Rightarrow> string" where
  "String_of v = (case v of None \<Rightarrow> ''undefined'' | Some s \<Rightarrow> s)"

text \<open>
  A \<open>Record<string, string>\<close> is an association list in the enumeration order of
  \<open>Object.keys\<close>. A JavaScript object holds one entry per key, so the lists that stand for
  objects have distinct keys. \<open>get_prop r k\<close> is the property read \<open>r[k]\<close>, which is
  \<open>undefined\<close> (\<open>None\<close>) for a key the object does not have.
\<close>

type_synonym keys_record = "(string \<times> string) list"

definition Object_keys :: "keys_record \<Rightarrow> string list" where
  "Object_keys r = map fst r"

definition Object_values :: "keys_record \<Rightarrow> string list" where
  "Object_values r = map snd r"

definition get_prop :: "keys_record \<Rightarrow> string \<Rightarrow> string option" where
  "get_prop r k = map_of r k"

text \<open>
  A template literal \<open>${n}\<close> prints the length of an array, a natural number, in decimal.
\<close>

definition digit :: "nat \<Rightarrow> char" where
  "digit d = ''0123456789'' ! d"

function Number_toString :: "nat \<Rightarrow> string" where
  "Number_toString n =
     (if n < 10 then [digit n] else Number_toString (n div 10) @ [digit (n mod 10)])"
  by pat_completeness auto
termination
  by (relation "measure id") auto

declare Number_toString.simps [simp del]

section \<open>Errors\<close>

text \<open>
  Every \<open>throw new Error(msg)\<close> of the source is \<open>Error msg\<close>. Reading a property of
  \<open>undefined\<close> (\<open>this.cli.http\<close> with no client, \<open>cli.crypto.getStoredDevice\<close> with no
  crypto module, \<open>Object.keys(undefined)\<close>) raises a \<open>TypeError\<close>; its argument names
  the expression that was \<open>undefined\<close>. A capability of the environment may reject with any
  error, which the \<open>await\<close> rethrows.
\<close>

datatype error = Error string | TypeError string

section \<open>Data exchanged with the environment\<close>

text \<open>
  Modelled from the spec: the enumeration \<open>RendezvousCancellationReason\<close>, which the
  source imports from matrix-js-sdk. The source uses its members \<open>UserDeclined\<close> and
  \<open>UserCancelled\<close>; the spec adds channel and protocol reasons (timeout, unsupported),
  kept here by name.
\<close>

datatype RendezvousCancellationReason = UserDeclined | UserCancelled | OtherReason string

text \<open>
  The payload objects sent and received over the channel. Every field is optional: the
  source destructures \<open>homeserver\<close>, \<open>login_token\<close>, \<open>outcome\<close>, \<open>deviceId\<close> and
  \<open>deviceKeys\<close> from what it receives and builds object literals with subsets of them.
\<close>

record payload =
  payload_user :: "string option"
  homeserver :: "string option"
  login_token :: "string option"
  outcome :: "string option"
  deviceId :: "string option"
  deviceKeys :: "keys_record option"

definition empty_payload :: payload where
  "empty_payload = \<lparr>payload_user = None, homeserver = None, login_token = None,
     outcome = None, deviceId = None, deviceKeys = None\<rparr>"

text \<open>
  Modelled from the spec: the session credentials \<open>IMatrixClientCreds\<close> that
  \<open>sendLoginRequest\<close> returns, declared in \<open>MatrixClientPeg\<close>. The source reads the
  fields \<open>userId\<close> and \<open>deviceId\<close> and passes the whole object on; the device id is
  optional.
\<close>

record IMatrixClientCreds =
  creds_userId :: string
  creds_deviceId :: "string option"

text \<open>
  Modelled from the spec: \<open>DeviceInfo\<close> (and \<open>IDevice\<close>), declared in matrix-js-sdk,
  a device's published identity keys as pairs of key id and key value. The source reads
  the field \<open>keys\<close> only.
\<close>

record DeviceInfo =
  keys :: keys_record

text \<open>The body of the response to \<open>POST /login/token\<close>.\<close>

record login_token_response =
  resp_login_token :: string
  resp_expires_in :: int

section \<open>Calls to the environment\<close>

text \<open>
  Each call the source makes to a capability it was given is recorded, with its arguments,
  in a trace. (Calls to \<open>logger.info\<close> are not modelled.)
\<close>

datatype event =
    ChannelGenerateCode
  | ChannelConnect
  | OnConfirmationDigits string
  | ChannelReceive
  | ChannelSend payload
  | TransportCancel RendezvousCancellationReason
  | SendLoginRequest string "string option" string string
  | SetLoggedIn IMatrixClientCreds
  | GetRawStoredDevicesForUser string
  | AuthedRequest string string
  | GetStoredDevice string "string option"
  | Sleep int
  | SetDeviceVerification string "string option" bool bool bool

text \<open>
  A capability is a function of the state \<open>'w\<close> of the world outside the session: it
  returns a value or rejects with an error, and leaves the world changed.
\<close>

type_synonym ('w, 'a) cap = "'w \<Rightarrow> (error + 'a) \<times> 'w"

record ('w, 'c) RendezvousChannel =
  channel_generateCode :: "('w, 'c) cap"
  channel_connect :: "('w, string) cap"
  channel_send :: "payload \<Rightarrow> ('w, unit) cap"
  channel_receive :: "('w, payload option) cap"
  transport_cancel :: "RendezvousCancellationReason \<Rightarrow> ('w, unit) cap"

record ('w, 'v) Crypto =
  getStoredDevice :: "string \<Rightarrow> string option \<Rightarrow> ('w, DeviceInfo option) cap"
  setDeviceVerification ::
    "string \<Rightarrow> string option \<Rightarrow> bool \<Rightarrow> bool \<Rightarrow> bool \<Rightarrow> ('w, 'v) cap"
  getRawStoredDevicesForUser :: "string \<Rightarrow> ('w, (string \<rightharpoonup> DeviceInfo) option) cap"

record ('w, 'v) MatrixClient =
  getUserId :: "'w \<Rightarrow> string"
  baseUrl :: string
  authedRequest :: "string \<Rightarrow> string \<Rightarrow> ('w, login_token_response) cap"
  crypto :: "('w, 'v) Crypto option"

text \<open>
  What the module imports: \<open>sendLoginRequest\<close> (Login), \<open>setLoggedIn\<close> (Lifecycle),
  \<open>MatrixClientPeg.get\<close>, \<open>sleep\<close>, and \<open>JSON.stringify\<close> on the channel's code object
  (which is \<open>undefined\<close> for a value with no JSON text).
\<close>

record ('w, 'c, 'v) modules =
  sendLoginRequest ::
    "string \<Rightarrow> string option \<Rightarrow> string \<Rightarrow> string \<Rightarrow> ('w, IMatrixClientCreds) cap"
  setLoggedIn :: "IMatrixClientCreds \<Rightarrow> ('w, unit) cap"
  MatrixClientPeg_get :: "'w \<Rightarrow> ('w, 'v) MatrixClient option"
  sleep :: "int \<Rightarrow> ('w, unit) cap"
  JSON_stringify :: "'c \<Rightarrow> string option"

section \<open>The class \<open>Rendezvous\<close>\<close>

record ('w, 'c, 'v) Rendezvous =
  cli :: "('w, 'v) MatrixClient option"
  user :: "string option"
  newDeviceId :: "string option"
  newDeviceKeys :: "keys_record option"
  code :: "string option"
  onConfirmationDigits :: "(string \<Rightarrow> ('w, unit) cap) option"
  onCancelled :: "(RendezvousCancellationReason \<Rightarrow> ('w, unit) cap) option"
  channel :: "('w, 'c) RendezvousChannel"

text \<open>
  A method of the class runs on the object \<open>this\<close>, the world and the trace of calls
  made so far, and returns a value or throws.
\<close>

record ('w, 'c, 'v) state =
  this :: "('w, 'c, 'v) Rendezvous"
  world :: 'w
  trace :: "event list"

type_synonym ('w, 'c, 'v, 'a) prog =
  "('w, 'c, 'v) state \<Rightarrow> (error + 'a) \<times> ('w, 'c, 'v) state"

definition returnM :: "'a \<Rightarrow> ('w, 'c, 'v, 'a) prog" where
  "returnM a = (\<lambda>s. (Inr a, s))"

definition throwM :: "error \<Rightarrow> ('w, 'c, 'v, 'a) prog" where
  "throwM e = (\<lambda>s. (Inl e, s))"

definition bindM ::
  "('w, 'c, 'v, 'a) prog \<Rightarrow> ('a \<Rightarrow> ('w, 'c, 'v, 'b) prog) \<Rightarrow> ('w, 'c, 'v, 'b) prog"
where
  "bindM m f = (\<lambda>s. case m s of (Inl e, s') \<Rightarrow> (Inl e, s') | (Inr a, s') \<Rightarrow> f a s')"

definition get_this :: "('w, 'c, 'v, ('w, 'c, 'v) Rendezvous) prog" where
  "get_this = (\<lambda>s. (Inr (this s), s))"

definition get_world :: "('w, 'c, 'v, 'w) prog" where
  "get_world = (\<lambda>s. (Inr (world s), s))"

definition set_this ::
  "(('w, 'c, 'v) Rendezvous \<Rightarrow> ('w, 'c, 'v) Rendezvous) \<Rightarrow> ('w, 'c, 'v, unit) prog"
where
  "set_this f = (\<lambda>s. (Inr (), s\<lparr>this := f (this s)\<rparr>))"

text \<open>Calling a capability: the call is traced, then made in the current world.\<close>

definition call :: "event \<Rightarrow> ('w, 'a) cap \<Rightarrow> ('w, 'c, 'v, 'a) prog" where
  "call ev c = (\<lambda>s. case c (world s) of
       (r, w') \<Rightarrow> (r, s\<lparr>world := w', trace := trace s @ [ev]\<rparr>))"

subsection \<open>\<open>generateCode\<close>\<close>

definition generateCode :: "('w, 'c, 'v) modules \<Rightarrow> ('w, 'c, 'v, unit) prog" where
  "generateCode im =
     bindM get_this (\<lambda>self.
       if truthy (code self) then returnM ()
       else
         bindM (call ChannelGenerateCode (channel_generateCode (channel self))) (\<lambda>c.
         set_this (\<lambda>t. t\<lparr>code := JSON_stringify im c\<rparr>)))"

subsection \<open>\<open>cancel\<close>\<close>

definition cancel :: "RendezvousCancellationReason \<Rightarrow> ('w, 'c, 'v, unit) prog" where
  "cancel reason =
     bindM get_this (\<lambda>self.
       call (TransportCancel reason) (transport_cancel (channel self) reason))"

subsection \<open>\<open>completeOnNewDevice\<close>\<close>

text \<open>
  \<open>devices\<close> is a plain object, so the read \<open>devices[deviceId]\<close> finds the object's own
  entry for that key, or else a property that every plain object inherits from
  \<open>Object.prototype\<close>, or else nothing (\<open>undefined\<close>). An inherited property is a
  function (for \<open>__proto__\<close>, the prototype object): a truthy value that is no device.
\<close>

definition Object_prototype_properties :: "string list" where
  "Object_prototype_properties =
     [''constructor'', ''__defineGetter__'', ''__defineSetter__'', ''hasOwnProperty'',
      ''__lookupGetter__'', ''__lookupSetter__'', ''isPrototypeOf'',
      ''propertyIsEnumerable'', ''toString'', ''valueOf'', ''__proto__'',
      ''toLocaleString'']"

datatype device_slot = NoProperty | OwnDevice DeviceInfo | InheritedProperty

definition read_device :: "(string \<rightharpoonup> DeviceInfo) \<Rightarrow> string \<Rightarrow> device_slot" where
  "read_device ds k =
     (case ds k of
        Some d \<Rightarrow> OwnDevice d
      | None \<Rightarrow> if k \<in> set Object_prototype_properties then InheritedProperty else NoProperty)"

text \<open>
  The keys the new device reports: absent without a crypto module, otherwise the field
  \<open>keys\<close> of the value read at \<open>devices[deviceId]\<close>. The method throws only when
  \<open>devices\<close> or that value is falsy. For a stored device the field is its key record.
  An inherited property passes the test too, and its \<open>keys\<close> is not a key record (it is
  \<open>undefined\<close>; for \<open>constructor\<close> it is the function \<open>Object.keys\<close>, which has no
  JSON text), so the payload then carries no device keys.
\<close>

definition own_device_keys ::
  "('w, 'v) MatrixClient \<Rightarrow> IMatrixClientCreds \<Rightarrow> ('w, 'c, 'v, keys_record option) prog"
where
  "own_device_keys client login =
     (case crypto client of
        None \<Rightarrow> returnM None
      | Some cr \<Rightarrow>
          bindM (call (GetRawStoredDevicesForUser (creds_userId login))
                   (getRawStoredDevicesForUser cr (creds_userId login))) (\<lambda>devices.
          case (case devices of
                  None \<Rightarrow> NoProperty
                | Some ds \<Rightarrow> read_device ds (String_of (creds_deviceId login))) of
            NoProperty \<Rightarrow>
              throwM (Error (''Unknown device '' @ creds_userId login @ '':''
                               @ String_of (creds_deviceId login)))
          | OwnDevice device \<Rightarrow> returnM (Some (keys device))
          | InheritedProperty \<Rightarrow> returnM None))"

definition completeOnNewDevice ::
  "('w, 'c, 'v) modules \<Rightarrow> ('w, 'c, 'v, IMatrixClientCreds option) prog"
where
  "completeOnNewDevice im =
     bindM get_this (\<lambda>self.
     bindM (call ChannelConnect (channel_connect (channel self))) (\<lambda>digits.
     bindM (case onConfirmationDigits self of
              None \<Rightarrow> returnM ()
            | Some f \<Rightarrow> call (OnConfirmationDigits digits) (f digits)) (\<lambda>_.
     bindM (call ChannelReceive (channel_receive (channel self))) (\<lambda>res.
     case res of
       None \<Rightarrow> returnM None
     | Some p \<Rightarrow>
         if outcome p = Some ''declined'' then
           bindM (cancel UserDeclined) (\<lambda>_. returnM None)
         else
           (case truthy_string (homeserver p) of
              None \<Rightarrow> throwM (Error ''No homeserver returned'')
            | Some hs \<Rightarrow>
               (case truthy_string (login_token p) of
                  None \<Rightarrow> throwM (Error ''No login token returned'')
                | Some tok \<Rightarrow>
                    bindM (call (SendLoginRequest hs None ''m.login.token'' tok)
                             (sendLoginRequest im hs None ''m.login.token'' tok)) (\<lambda>login.
                    bindM (call (SetLoggedIn login) (setLoggedIn im login)) (\<lambda>_.
                    bindM get_world (\<lambda>w.
                    case MatrixClientPeg_get im w of
                      None \<Rightarrow> throwM (TypeError ''MatrixClientPeg.get()'')
                    | Some client \<Rightarrow>
                        bindM (own_device_keys client login) (\<lambda>dk.
                        bindM (call
                                 (ChannelSend (empty_payload\<lparr>outcome := Some ''success'',
                                    deviceId := creds_deviceId login, deviceKeys := dk\<rparr>))
                                 (channel_send (channel self)
                                    (empty_payload\<lparr>outcome := Some ''success'',
                                       deviceId := creds_deviceId login,
                                       deviceKeys := dk\<rparr>))) (\<lambda>_.
                        returnM (Some login))))))))))))"

subsection \<open>\<open>confirmLoginOnExistingDevice\<close>\<close>

definition confirmLoginOnExistingDevice :: "('w, 'c, 'v, string option) prog" where
  "confirmLoginOnExistingDevice =
     bindM get_this (\<lambda>self.
     case cli self of
       None \<Rightarrow> throwM (TypeError ''this.cli'')
     | Some c \<Rightarrow>
         bindM (call (AuthedRequest ''POST'' ''/login/token'')
                  (authedRequest c ''POST'' ''/login/token'')) (\<lambda>resp.
         bindM get_world (\<lambda>w.
         bindM (call
                  (ChannelSend (empty_payload\<lparr>payload_user := Some (getUserId c w),
                     homeserver := Some (baseUrl c),
                     login_token := Some (resp_login_token resp)\<rparr>))
                  (channel_send (channel self)
                     (empty_payload\<lparr>payload_user := Some (getUserId c w),
                        homeserver := Some (baseUrl c),
                        login_token := Some (resp_login_token resp)\<rparr>))) (\<lambda>_.
         bindM (call ChannelReceive (channel_receive (channel self))) (\<lambda>res.
         case res of
           None \<Rightarrow> returnM None
         | Some p \<Rightarrow>
             if outcome p \<noteq> Some ''success'' then throwM (Error ''Linking failed'')
             else
               bindM (set_this (\<lambda>t. t\<lparr>newDeviceId := deviceId p,
                                        newDeviceKeys := deviceKeys p\<rparr>)) (\<lambda>_.
               returnM (deviceId p)))))))"

subsection \<open>\<open>checkAndCrossSignDevice\<close>\<close>

text \<open>The \<open>for\<close> loop over \<open>Object.keys(this.newDeviceKeys)\<close>: it throws at the first key
  whose stored and reported values differ under \<open>!==\<close>.\<close>

fun check_each_key :: "keys_record \<Rightarrow> keys_record \<Rightarrow> string list \<Rightarrow> error + unit" where
  "check_each_key stored reported [] = Inr ()"
| "check_each_key stored reported (keyId # rest) =
     (if get_prop stored keyId \<noteq> get_prop reported keyId
      then Inl (Error (''New device has different keys than expected for '' @ keyId))
      else check_each_key stored reported rest)"

definition checkAndCrossSignDevice :: "DeviceInfo \<Rightarrow> ('w, 'c, 'v, 'v) prog" where
  "checkAndCrossSignDevice deviceInfo =
     bindM get_this (\<lambda>self.
     case newDeviceKeys self of
       None \<Rightarrow> throwM (TypeError ''this.newDeviceKeys'')
     | Some reported \<Rightarrow>
         if length (Object_keys (keys deviceInfo)) \<noteq> length (Object_keys reported) then
           throwM (Error (''New device has different keys than expected: ''
                            @ Number_toString (length (Object_keys (keys deviceInfo)))
                            @ '' vs '' @ Number_toString (length (Object_keys reported))))
         else
           (case check_each_key (keys deviceInfo) reported (Object_keys reported) of
              Inl e \<Rightarrow> throwM e
            | Inr _ \<Rightarrow>
               (case cli self of
                  None \<Rightarrow> throwM (TypeError ''this.cli'')
                | Some c \<Rightarrow>
                   (case crypto c of
                      None \<Rightarrow> throwM (TypeError ''this.cli.crypto'')
                    | Some cr \<Rightarrow>
                        bindM get_world (\<lambda>w.
                        call (SetDeviceVerification (getUserId c w) (newDeviceId self)
                                True False True)
                             (setDeviceVerification cr (getUserId c w) (newDeviceId self)
                                True False True))))))"

subsection \<open>\<open>crossSign\<close>\<close>

text \<open>The parameter \<open>timeout = 10 * 1000\<close>: the argument when one is given, the default
  of ten seconds otherwise.\<close>

definition timeout_of :: "int option \<Rightarrow> int" where
  "timeout_of timeout_arg = (case timeout_arg of None \<Rightarrow> 10 * 1000 | Some t \<Rightarrow> t)"

definition crossSign ::
  "('w, 'c, 'v) modules \<Rightarrow> int option \<Rightarrow> ('w, 'c, 'v, 'v option) prog"
where
  "crossSign im timeout_arg =
     (let timeout = timeout_of timeout_arg in
     bindM get_this (\<lambda>self.
     if \<not> truthy (newDeviceId self) then throwM (Error ''No new device to sign'')
     else if (case newDeviceKeys self of
                None \<Rightarrow> True
              | Some ks \<Rightarrow> length (Object_values ks) = 0) then returnM None
     else
       (case cli self of
          None \<Rightarrow> throwM (TypeError ''cli'')
        | Some c \<Rightarrow>
           (case crypto c of
              None \<Rightarrow> throwM (TypeError ''cli.crypto'')
            | Some cr \<Rightarrow>
                bindM get_world (\<lambda>w.
                bindM (call (GetStoredDevice (getUserId c w) (newDeviceId self))
                         (getStoredDevice cr (getUserId c w) (newDeviceId self))) (\<lambda>found.
                case found of
                  Some deviceInfo \<Rightarrow>
                    bindM (checkAndCrossSignDevice deviceInfo) (\<lambda>v. returnM (Some v))
                | None \<Rightarrow>
                    bindM (call (Sleep timeout) (sleep im timeout)) (\<lambda>_.
                    bindM get_world (\<lambda>w'.
                    bindM (call (GetStoredDevice (getUserId c w') (newDeviceId self))
                             (getStoredDevice cr (getUserId c w') (newDeviceId self)))
                      (\<lambda>found'.
                    case found' of
                      Some deviceInfo \<Rightarrow>
                        bindM (checkAndCrossSignDevice deviceInfo) (\<lambda>v. returnM (Some v))
                    | None \<Rightarrow> throwM (Error ''Device not online within timeout''))))))))))"

section \<open>Reading a run\<close>

text \<open>The calls made by a run that started in state \<open>s\<close> and ended in state \<open>s'\<close>.\<close>

definition events_since :: "('w, 'c, 'v) state \<Rightarrow> ('w, 'c, 'v) state \<Rightarrow> event list" where
  "events_since s s' = drop (length (trace s)) (trace s')"

fun is_GetStoredDevice :: "event \<Rightarrow> bool" where
  "is_GetStoredDevice (GetStoredDevice u d) = True"
| "is_GetStoredDevice _ = False"

fun is_Sleep :: "event \<Rightarrow> bool" where
  "is_Sleep (Sleep t) = True"
| "is_Sleep _ = False"

fun is_SendLoginRequest :: "event \<Rightarrow> bool" where
  "is_SendLoginRequest (SendLoginRequest h d m t) = True"
| "is_SendLoginRequest _ = False"

fun is_ChannelSend :: "event \<Rightarrow> bool" where
  "is_ChannelSend (ChannelSend p) = True"
| "is_ChannelSend _ = False"

text \<open>
  The observer \<open>onConfirmationDigits\<close> is called only when it is set. With no observer
  nothing happens; with one, \<open>digits_shown\<close> says that it returned normally, taking the
  world from \<open>w\<close> to \<open>w'\<close>, and \<open>digits_events\<close> is the call it adds to the trace.
\<close>

definition digits_shown ::
  "('w, 'c, 'v) Rendezvous \<Rightarrow> string \<Rightarrow> 'w \<Rightarrow> 'w \<Rightarrow> bool"
where
  "digits_shown self digits w w' =
     (case onConfirmationDigits self of
        None \<Rightarrow> w' = w
      | Some f \<Rightarrow> f digits w = (Inr (), w'))"

definition digits_events :: "('w, 'c, 'v) Rendezvous \<Rightarrow> string \<Rightarrow> event list" where
  "digits_events self digits =
     (case onConfirmationDigits self of
        None \<Rightarrow> []
      | Some f \<Rightarrow> [OnConfirmationDigits digits])"

text \<open>The object literal \<open>{ user, homeserver, login_token }\<close> of
  \<open>confirmLoginOnExistingDevice\<close>, written out field by field.\<close>

definition login_offer :: "string \<Rightarrow> string \<Rightarrow> string \<Rightarrow> payload" where
  "login_offer u hs tok = \<lparr>payload_user = Some u, homeserver = Some hs,
     login_token = Some tok, outcome = None, deviceId = None, deviceKeys = None\<rparr>"

section \<open>A concrete environment\<close>

text \<open>
  The world is a clock in milliseconds. The channel delivers one fixed message; the new
  device's keys appear in the device store at time \<open>online_at\<close>; \<open>sleep\<close> advances the
  clock; the homeserver is \<open>https://example.org\<close> and the user \<open>@alice:example.org\<close>.
\<close>

definition ex_channel :: "payload option \<Rightarrow> (int, string) RendezvousChannel" where
  "ex_channel inbox =
     \<lparr>channel_generateCode = (\<lambda>w. (Inr ''rendezvous'', w)),
      channel_connect = (\<lambda>w. (Inr ''1234'', w)),
      channel_send = (\<lambda>p w. (Inr (), w)),
      channel_receive = (\<lambda>w. (Inr inbox, w)),
      transport_cancel = (\<lambda>r w. (Inr (), w))\<rparr>"

definition ex_crypto :: "int \<Rightarrow> keys_record \<Rightarrow> (int, string) Crypto" where
  "ex_crypto online_at stored =
     \<lparr>getStoredDevice =
        (\<lambda>u d w. (Inr (if online_at \<le> w then Some \<lparr>keys = stored\<rparr> else None), w)),
      setDeviceVerification = (\<lambda>u d v b c w. (Inr (''verified '' @ String_of d), w)),
      getRawStoredDevicesForUser =
        (\<lambda>u w. (Inr (Some (\<lambda>d. if d = ''DEV1'' then Some \<lparr>keys = stored\<rparr> else None)), w))\<rparr>"

definition ex_client :: "int \<Rightarrow> keys_record \<Rightarrow> (int, string) MatrixClient" where
  "ex_client online_at stored =
     \<lparr>getUserId = (\<lambda>w. ''@alice:example.org''),
      baseUrl = ''https://example.org'',
      authedRequest =
        (\<lambda>m p w. (Inr \<lparr>resp_login_token = ''tok1'', resp_expires_in = 120\<rparr>, w)),
      crypto = Some (ex_crypto online_at stored)\<rparr>"

definition ex_modules :: "(int, string, string) modules" where
  "ex_modules =
     \<lparr>sendLoginRequest =
        (\<lambda>hs d m tok w. (Inr \<lparr>creds_userId = ''@alice:example.org'',
           creds_deviceId = Some ''DEV1''\<rparr>, w)),
      setLoggedIn = (\<lambda>c w. (Inr (), w)),
      MatrixClientPeg_get = (\<lambda>w. Some (ex_client 0 [(''ed25519'', ''K1'')])),
      sleep = (\<lambda>t w. (Inr (), w + t)),
      JSON_stringify = (\<lambda>c. Some (CHR 0x22 # c @ [CHR 0x22]))\<rparr>"

definition ex_state ::
  "(int, string) MatrixClient \<Rightarrow> payload option \<Rightarrow> string option \<Rightarrow> keys_record option
     \<Rightarrow> string option \<Rightarrow> (int, string, string) state"
where
  "ex_state cl inbox ndid ndkeys cd =
     \<lparr>this = \<lparr>cli = Some cl, user = None, newDeviceId = ndid, newDeviceKeys = ndkeys,
        code = cd, onConfirmationDigits = Some (\<lambda>digits w. (Inr (), w)),
        onCancelled = None, channel = ex_channel inbox\<rparr>,
      world = 0, trace = []\<rparr>"

text \<open>
  The same environment with a transport whose \<open>cancel\<close> rejects, after the other device
  has declined.
\<close>

definition ex_cancel_rejects :: "(int, string, string) state" where
  "ex_cancel_rejects =
     \<lparr>this = \<lparr>cli = Some (ex_client 0 []), user = None, newDeviceId = None,
        newDeviceKeys = None, code = None,
        onConfirmationDigits = Some (\<lambda>digits w. (Inr (), w)), onCancelled = None,
        channel =
          \<lparr>channel_generateCode = (\<lambda>w. (Inr ''rendezvous'', w)),
           channel_connect = (\<lambda>w. (Inr ''1234'', w)),
           channel_send = (\<lambda>p w. (Inr (), w)),
           channel_receive =
             (\<lambda>w. (Inr (Some (empty_payload\<lparr>outcome := Some ''declined''\<rparr>)), w)),
           transport_cancel = (\<lambda>r w. (Inl (Error ''transport closed''), w))\<rparr>\<rparr>,
      world = 0, trace = []\<rparr>"

section \<open>Properties\<close>

lemmas monad_defs =
  bindM_def returnM_def throwM_def get_this_def get_world_def set_this_def call_def

lemmas ex_defs =
  ex_state_def ex_channel_def ex_client_def ex_crypto_def ex_modules_def

subsection \<open>Code generation\<close>

text \<open>
  Claim C9. \<open>generateCode\<close> is idempotent. In a session where a code already exists (the
  field \<open>code\<close> is truthy), calling it returns normally and changes nothing: the stored
  code is the same, and no call is made at all, so the channel's \<open>generateCode\<close> is not
  invoked. Hence two calls in a row behave as one call: when \<open>JSON.stringify\<close> gives a
  non-empty text for every code object, running \<open>generateCode\<close> twice ends in the same
  result and the same state (the same code, the same calls) as running it once.
\<close>

theorem generateCode_idempotent:
  "(truthy (code (this s)) \<longrightarrow>
      generateCode im s = (Inr (), s) \<and>
      code (this (snd (generateCode im s))) = code (this s) \<and>
      events_since s (snd (generateCode im s)) = [])
   \<and>
   ((\<forall>c. truthy (JSON_stringify im c)) \<longrightarrow>
      bindM (generateCode im) (\<lambda>_. generateCode im) s = generateCode im s)"
proof (intro conjI impI)
  assume t: "truthy (code (this s))"
  then show noop: "generateCode im s = (Inr (), s)"
    by (simp add: generateCode_def monad_defs)
  then show "code (this (snd (generateCode im s))) = code (this s)"
    and "events_since s (snd (generateCode im s)) = []"
    by (simp_all add: events_since_def)
next
  assume json: "\<forall>c. truthy (JSON_stringify im c)"
  show "bindM (generateCode im) (\<lambda>_. generateCode im) s = generateCode im s"
  proof (cases "truthy (code (this s))")
    case True
    then show ?thesis by (simp add: generateCode_def monad_defs)
  next
    case False
    obtain r w' where g: "channel_generateCode (channel (this s)) (world s) = (r, w')"
      by (cases "channel_generateCode (channel (this s)) (world s)")
    show ?thesis
    proof (cases r)
      case (Inl e)
      with False g show ?thesis by (simp add: generateCode_def monad_defs)
    next
      case (Inr c)
      with False g json show ?thesis by (simp add: generateCode_def monad_defs)
    qed
  qed
qed

theorem generateCode_idempotent_witness:
  "truthy (code (this (ex_state (ex_client 0 []) None None None (Some ''{}''))))
   \<and> generateCode ex_modules (ex_state (ex_client 0 []) None None None (Some ''{}''))
       = (Inr (), ex_state (ex_client 0 []) None None None (Some ''{}''))
   \<and> truthy (JSON_stringify ex_modules ''rendezvous'')
   \<and> bindM (generateCode ex_modules) (\<lambda>_. generateCode ex_modules)
         (ex_state (ex_client 0 []) None None None None)
       = generateCode ex_modules (ex_state (ex_client 0 []) None None None None)
   \<and> code (this (snd (generateCode ex_modules (ex_state (ex_client 0 []) None None None None))))
       = Some (CHR 0x22 # ''rendezvous'' @ [CHR 0x22])"
proof -
  have a: "truthy (code (this (ex_state (ex_client 0 []) None None None (Some ''{}''))))"
    by (simp add: ex_state_def truthy_def truthy_string_def)
  have b: "\<forall>c. truthy (JSON_stringify ex_modules c)"
    by (simp add: ex_modules_def truthy_def truthy_string_def)
  have c: "code (this (snd (generateCode ex_modules (ex_state (ex_client 0 []) None None None None))))
       = Some (CHR 0x22 # ''rendezvous'' @ [CHR 0x22])"
    by (simp add: generateCode_def monad_defs ex_defs truthy_def truthy_string_def)
  from a b c
    generateCode_idempotent [of "ex_state (ex_client 0 []) None None None (Some ''{}'')" ex_modules]
    generateCode_idempotent [of "ex_state (ex_client 0 []) None None None None" ex_modules]
  show ?thesis by simp
qed

subsection \<open>The new device: \<open>completeOnNewDevice\<close>\<close>

text \<open>
  The statements below follow one run: \<open>connect\<close> returned the digits, the observer (if
  set) returned normally, and \<open>receive\<close> returned. The first lemma gives the run up to
  the point where the login request would be sent.
\<close>

lemma events_since_append [simp]:
  "events_since s (s\<lparr>world := w, trace := trace s @ evs\<rparr>) = evs"
  "events_since s (s\<lparr>this := t, world := w, trace := trace s @ evs\<rparr>) = evs"
  "events_since s s = []"
  by (simp_all add: events_since_def)

lemma filter_digits_events [simp]:
  "filter is_SendLoginRequest (digits_events self digits) = []"
  "filter is_ChannelSend (digits_events self digits) = []"
  "count_list (digits_events self digits) (TransportCancel reason) = 0"
  by (simp_all add: digits_events_def split: option.splits)

lemma complete_received:
  assumes "channel_connect (channel (this s)) (world s) = (Inr digits, w1)"
    and "digits_shown (this s) digits w1 w2"
    and "channel_receive (channel (this s)) w2 = (Inr res, w3)"
  shows "completeOnNewDevice im s =
    (case res of
       None \<Rightarrow> (Inr None,
         s\<lparr>world := w3, trace := trace s @ ChannelConnect # digits_events (this s) digits
               @ [ChannelReceive]\<rparr>)
     | Some p \<Rightarrow>
         if outcome p = Some ''declined'' then
           (case transport_cancel (channel (this s)) UserDeclined w3 of
              (rc, w4) \<Rightarrow>
                (case rc of Inl e \<Rightarrow> Inl e | Inr u \<Rightarrow> Inr None,
                 s\<lparr>world := w4, trace := trace s @ ChannelConnect # digits_events (this s) digits
                        @ [ChannelReceive, TransportCancel UserDeclined]\<rparr>))
         else if \<not> truthy (homeserver p) then
           (Inl (Error ''No homeserver returned''),
            s\<lparr>world := w3, trace := trace s @ ChannelConnect # digits_events (this s) digits
               @ [ChannelReceive]\<rparr>)
         else if \<not> truthy (login_token p) then
           (Inl (Error ''No login token returned''),
            s\<lparr>world := w3, trace := trace s @ ChannelConnect # digits_events (this s) digits
               @ [ChannelReceive]\<rparr>)
         else completeOnNewDevice im s)"
  using assms
  by (auto simp add: completeOnNewDevice_def cancel_def monad_defs digits_shown_def
        digits_events_def truthy_def
      split: option.splits sum.splits prod.splits)

text \<open>
  Claim C5, as the claim states it, does not hold: a declined payload does not always
  end in "no result, not an error". The method awaits \<open>cancel(UserDeclined)\<close>, which
  awaits the transport's \<open>cancel\<close>; when that rejects, \<open>completeOnNewDevice\<close> throws the
  same error. Here the transport rejects with \<open>transport closed\<close>.
\<close>

theorem completeOnNewDevice_declined_counterexample:
  "completeOnNewDevice ex_modules ex_cancel_rejects =
     (Inl (Error ''transport closed''),
      ex_cancel_rejects\<lparr>world := 0,
        trace := [ChannelConnect, OnConfirmationDigits ''1234'', ChannelReceive,
          TransportCancel UserDeclined]\<rparr>)"
  by (simp add: completeOnNewDevice_def cancel_def monad_defs ex_cancel_rejects_def
        empty_payload_def)

text \<open>
  Claim C5, amended. When the received payload has outcome \<open>declined\<close>,
  \<open>completeOnNewDevice\<close> calls \<open>cancel(UserDeclined)\<close> exactly once and makes no other
  call after the receive: no login request and no channel send. Its result is that of the
  cancellation: when the transport's \<open>cancel\<close> returns normally, the method returns
  \<open>undefined\<close> (no result, not an error); when it rejects, the method throws that error.
\<close>

theorem completeOnNewDevice_declined:
  assumes "channel_connect (channel (this s)) (world s) = (Inr digits, w1)"
    and "digits_shown (this s) digits w1 w2"
    and "channel_receive (channel (this s)) w2 = (Inr (Some p), w3)"
    and "outcome p = Some ''declined''"
    and "transport_cancel (channel (this s)) UserDeclined w3 = (rc, w4)"
  shows "completeOnNewDevice im s =
           (case rc of Inl e \<Rightarrow> Inl e | Inr u \<Rightarrow> Inr None,
            s\<lparr>world := w4,
              trace := trace s @ ChannelConnect # digits_events (this s) digits
                         @ [ChannelReceive, TransportCancel UserDeclined]\<rparr>)
         \<and> count_list (events_since s (snd (completeOnNewDevice im s)))
               (TransportCancel UserDeclined) = 1
         \<and> filter is_SendLoginRequest (events_since s (snd (completeOnNewDevice im s))) = []
         \<and> filter is_ChannelSend (events_since s (snd (completeOnNewDevice im s))) = []"
proof -
  have run: "completeOnNewDevice im s =
           (case rc of Inl e \<Rightarrow> Inl e | Inr u \<Rightarrow> Inr None,
            s\<lparr>world := w4,
              trace := trace s @ ChannelConnect # digits_events (this s) digits
                         @ [ChannelReceive, TransportCancel UserDeclined]\<rparr>)"
    using complete_received [OF assms(1-3), of im] assms(4,5) by simp
  then show ?thesis by simp
qed

theorem completeOnNewDevice_declined_witness:
  "completeOnNewDevice ex_modules
     (ex_state (ex_client 0 []) (Some (empty_payload\<lparr>outcome := Some ''declined''\<rparr>))
        None None None)
   = (Inr None,
      (ex_state (ex_client 0 []) (Some (empty_payload\<lparr>outcome := Some ''declined''\<rparr>))
         None None None)
        \<lparr>world := 0, trace := [ChannelConnect, OnConfirmationDigits ''1234'', ChannelReceive,
           TransportCancel UserDeclined]\<rparr>)
   \<and> fst (completeOnNewDevice ex_modules ex_cancel_rejects) = Inl (Error ''transport closed'')
   \<and> events_since ex_cancel_rejects (snd (completeOnNewDevice ex_modules ex_cancel_rejects))
       = [ChannelConnect, OnConfirmationDigits ''1234'', ChannelReceive,
          TransportCancel UserDeclined]"
proof -
  from completeOnNewDevice_declined
    [where s = "ex_state (ex_client 0 []) (Some (empty_payload\<lparr>outcome := Some ''declined''\<rparr>))
        None None None"
       and digits = "''1234''" and ?w1.0 = 0 and ?w2.0 = 0 and ?w3.0 = 0 and ?w4.0 = 0
       and p = "empty_payload\<lparr>outcome := Some ''declined''\<rparr>" and rc = "Inr ()"
       and im = ex_modules]
  have returns: "completeOnNewDevice ex_modules
     (ex_state (ex_client 0 []) (Some (empty_payload\<lparr>outcome := Some ''declined''\<rparr>))
        None None None)
   = (Inr None,
      (ex_state (ex_client 0 []) (Some (empty_payload\<lparr>outcome := Some ''declined''\<rparr>))
         None None None)
        \<lparr>world := 0, trace := [ChannelConnect, OnConfirmationDigits ''1234'', ChannelReceive,
           TransportCancel UserDeclined]\<rparr>)"
    by (simp add: ex_defs digits_shown_def digits_events_def empty_payload_def)
  from completeOnNewDevice_declined
    [where s = ex_cancel_rejects
       and digits = "''1234''" and ?w1.0 = 0 and ?w2.0 = 0 and ?w3.0 = 0 and ?w4.0 = 0
       and p = "empty_payload\<lparr>outcome := Some ''declined''\<rparr>"
       and rc = "Inl (Error ''transport closed'')" and im = ex_modules]
  have rethrows: "fst (completeOnNewDevice ex_modules ex_cancel_rejects)
       = Inl (Error ''transport closed'')
     \<and> events_since ex_cancel_rejects (snd (completeOnNewDevice ex_modules ex_cancel_rejects))
       = [ChannelConnect, OnConfirmationDigits ''1234'', ChannelReceive,
          TransportCancel UserDeclined]"
    by (simp add: ex_cancel_rejects_def digits_shown_def digits_events_def empty_payload_def
          events_since_def)
  from returns rethrows show ?thesis by simp
qed

text \<open>
  Claim C3. When the received payload is not \<open>declined\<close> and its \<open>homeserver\<close> or its
  \<open>login_token\<close> is missing (absent or empty), \<open>completeOnNewDevice\<close> throws an error
  whose message names the missing field (the homeserver first when both are missing), and
  the run contains no call of \<open>sendLoginRequest\<close>: the last call made is the receive.
\<close>

theorem completeOnNewDevice_missing_field:
  assumes "channel_connect (channel (this s)) (world s) = (Inr digits, w1)"
    and "digits_shown (this s) digits w1 w2"
    and "channel_receive (channel (this s)) w2 = (Inr (Some p), w3)"
    and "outcome p \<noteq> Some ''declined''"
    and "\<not> truthy (homeserver p) \<or> \<not> truthy (login_token p)"
  shows "completeOnNewDevice im s =
           (Inl (Error (if \<not> truthy (homeserver p) then ''No homeserver returned''
                        else ''No login token returned'')),
            s\<lparr>world := w3,
              trace := trace s @ ChannelConnect # digits_events (this s) digits
                         @ [ChannelReceive]\<rparr>)
         \<and> filter is_SendLoginRequest (events_since s (snd (completeOnNewDevice im s))) = []"
proof -
  have run: "completeOnNewDevice im s =
           (Inl (Error (if \<not> truthy (homeserver p) then ''No homeserver returned''
                        else ''No login token returned'')),
            s\<lparr>world := w3,
              trace := trace s @ ChannelConnect # digits_events (this s) digits
                         @ [ChannelReceive]\<rparr>)"
    using complete_received [OF assms(1-3), of im] assms(4,5) by auto
  then show ?thesis by simp
qed

theorem completeOnNewDevice_missing_field_witness:
  "completeOnNewDevice ex_modules
     (ex_state (ex_client 0 [])
        (Some (empty_payload\<lparr>outcome := Some ''offer'', homeserver := Some ''https://example.org''\<rparr>))
        None None None)
   = (Inl (Error ''No login token returned''),
      (ex_state (ex_client 0 [])
        (Some (empty_payload\<lparr>outcome := Some ''offer'', homeserver := Some ''https://example.org''\<rparr>))
         None None None)
        \<lparr>world := 0, trace := [ChannelConnect, OnConfirmationDigits ''1234'', ChannelReceive]\<rparr>)"
  using completeOnNewDevice_missing_field
    [where s = "ex_state (ex_client 0 [])
        (Some (empty_payload\<lparr>outcome := Some ''offer'', homeserver := Some ''https://example.org''\<rparr>))
        None None None"
       and digits = "''1234''" and ?w1.0 = 0 and ?w2.0 = 0 and ?w3.0 = 0
       and p = "empty_payload\<lparr>outcome := Some ''offer'', homeserver := Some ''https://example.org''\<rparr>"
       and im = ex_modules]
  by (simp add: ex_defs digits_shown_def digits_events_def empty_payload_def truthy_def
        truthy_string_def)

subsection \<open>The existing device: \<open>confirmLoginOnExistingDevice\<close>\<close>

text \<open>
  A run of \<open>confirmLoginOnExistingDevice\<close> with a client: the token request, the send
  of the offer, the receive. Each of the three calls may reject, which ends the run.
\<close>

lemma login_offer_literal:
  "empty_payload\<lparr>payload_user := Some u, homeserver := Some hs, login_token := Some tok\<rparr>
     = login_offer u hs tok"
  by (simp add: empty_payload_def login_offer_def)

lemma confirm_request_returned:
  assumes "cli (this s) = Some c"
    and "authedRequest c ''POST'' ''/login/token'' (world s) = (r1, w1)"
  shows "confirmLoginOnExistingDevice s =
    (case r1 of
       Inl e \<Rightarrow> (Inl e, s\<lparr>world := w1,
                   trace := trace s @ [AuthedRequest ''POST'' ''/login/token'']\<rparr>)
     | Inr resp \<Rightarrow>
        (case channel_send (channel (this s))
                (login_offer (getUserId c w1) (baseUrl c) (resp_login_token resp)) w1 of
           (Inl e, w2) \<Rightarrow>
             (Inl e, s\<lparr>world := w2, trace := trace s @ [AuthedRequest ''POST'' ''/login/token'',
                ChannelSend (login_offer (getUserId c w1) (baseUrl c) (resp_login_token resp))]\<rparr>)
         | (Inr u, w2) \<Rightarrow>
            (case channel_receive (channel (this s)) w2 of
               (Inl e, w3) \<Rightarrow>
                 (Inl e, s\<lparr>world := w3, trace := trace s @ [AuthedRequest ''POST'' ''/login/token'',
                    ChannelSend (login_offer (getUserId c w1) (baseUrl c) (resp_login_token resp)),
                    ChannelReceive]\<rparr>)
             | (Inr None, w3) \<Rightarrow>
                 (Inr None, s\<lparr>world := w3, trace := trace s @ [AuthedRequest ''POST'' ''/login/token'',
                    ChannelSend (login_offer (getUserId c w1) (baseUrl c) (resp_login_token resp)),
                    ChannelReceive]\<rparr>)
             | (Inr (Some p), w3) \<Rightarrow>
                 if outcome p \<noteq> Some ''success'' then
                   (Inl (Error ''Linking failed''),
                    s\<lparr>world := w3, trace := trace s @ [AuthedRequest ''POST'' ''/login/token'',
                    ChannelSend (login_offer (getUserId c w1) (baseUrl c) (resp_login_token resp)),
                    ChannelReceive]\<rparr>)
                 else
                   (Inr (deviceId p),
                    s\<lparr>this := (this s)\<lparr>newDeviceId := deviceId p,
                                          newDeviceKeys := deviceKeys p\<rparr>,
                      world := w3, trace := trace s @ [AuthedRequest ''POST'' ''/login/token'',
                    ChannelSend (login_offer (getUserId c w1) (baseUrl c) (resp_login_token resp)),
                    ChannelReceive]\<rparr>))))"
  using assms
  by (simp add: confirmLoginOnExistingDevice_def monad_defs login_offer_literal
      split: option.splits sum.splits prod.splits)

lemma confirm_received:
  assumes "cli (this s) = Some c"
    and "authedRequest c ''POST'' ''/login/token'' (world s) = (Inr resp, w1)"
    and "channel_send (channel (this s))
           (login_offer (getUserId c w1) (baseUrl c) (resp_login_token resp)) w1 = (Inr (), w2)"
    and "channel_receive (channel (this s)) w2 = (Inr res, w3)"
  shows "confirmLoginOnExistingDevice s =
    (case res of
       None \<Rightarrow>
         (Inr None, s\<lparr>world := w3, trace := trace s @ [AuthedRequest ''POST'' ''/login/token'',
            ChannelSend (login_offer (getUserId c w1) (baseUrl c) (resp_login_token resp)),
            ChannelReceive]\<rparr>)
     | Some p \<Rightarrow>
         if outcome p \<noteq> Some ''success'' then
           (Inl (Error ''Linking failed''),
            s\<lparr>world := w3, trace := trace s @ [AuthedRequest ''POST'' ''/login/token'',
            ChannelSend (login_offer (getUserId c w1) (baseUrl c) (resp_login_token resp)),
            ChannelReceive]\<rparr>)
         else
           (Inr (deviceId p),
            s\<lparr>this := (this s)\<lparr>newDeviceId := deviceId p, newDeviceKeys := deviceKeys p\<rparr>,
              world := w3, trace := trace s @ [AuthedRequest ''POST'' ''/login/token'',
            ChannelSend (login_offer (getUserId c w1) (baseUrl c) (resp_login_token resp)),
            ChannelReceive]\<rparr>))"
  using confirm_request_returned [OF assms(1,2)] assms(3,4)
  by (simp split: option.splits)

lemma confirm_session:
  "confirmLoginOnExistingDevice s = (r, s') \<Longrightarrow>
   this s' = this s \<or>
   (\<exists>p::payload. outcome p = Some ''success'' \<and> r = Inr (deviceId p) \<and>
      this s' = (this s)\<lparr>newDeviceId := deviceId p, newDeviceKeys := deviceKeys p\<rparr>)"
  by (auto simp add: confirmLoginOnExistingDevice_def monad_defs
      split: option.splits prod.splits sum.splits if_splits)

lemma crossSign_no_device:
  "\<not> truthy (newDeviceId (this s)) \<Longrightarrow>
   crossSign im t s = (Inl (Error ''No new device to sign''), s)"
  by (simp add: crossSign_def monad_defs Let_def)

text \<open>
  Claim C6, as the claim states it, does not hold: the payload that
  \<open>confirmLoginOnExistingDevice\<close> sends has no \<open>outcome\<close> field. With the user
  \<open>@alice:example.org\<close>, the homeserver \<open>https://example.org\<close> and the token \<open>tok1\<close>,
  the one payload sent is \<open>{user, homeserver, login_token}\<close>; a payload with
  \<open>outcome: "offer"\<close> is never sent.
\<close>

theorem confirmLoginOnExistingDevice_offer_counterexample:
  "trace (snd (confirmLoginOnExistingDevice
       (ex_state (ex_client 0 []) None None None None))) =
     [AuthedRequest ''POST'' ''/login/token'',
      ChannelSend \<lparr>payload_user = Some ''@alice:example.org'',
        homeserver = Some ''https://example.org'', login_token = Some ''tok1'',
        outcome = None, deviceId = None, deviceKeys = None\<rparr>,
      ChannelReceive]
   \<and> ChannelSend \<lparr>payload_user = Some ''@alice:example.org'',
        homeserver = Some ''https://example.org'', login_token = Some ''tok1'',
        outcome = Some ''offer'', deviceId = None, deviceKeys = None\<rparr>
       \<notin> set (trace (snd (confirmLoginOnExistingDevice
                (ex_state (ex_client 0 []) None None None None))))"
  by (simp add: confirmLoginOnExistingDevice_def monad_defs ex_defs empty_payload_def)

text \<open>
  Claim C6, amended. Once the token request has returned, the next call of
  \<open>confirmLoginOnExistingDevice\<close> sends over the channel the payload that holds the
  client's user id, the homeserver base URL and the one-time login token of the response,
  and nothing else: no \<open>outcome\<close>, no \<open>deviceId\<close>, no \<open>deviceKeys\<close>. It is the only
  payload the method sends.
\<close>

theorem confirmLoginOnExistingDevice_sends_offer:
  assumes "cli (this s) = Some c"
    and "authedRequest c ''POST'' ''/login/token'' (world s) = (Inr resp, w1)"
  shows "take 2 (events_since s (snd (confirmLoginOnExistingDevice s))) =
           [AuthedRequest ''POST'' ''/login/token'',
            ChannelSend \<lparr>payload_user = Some (getUserId c w1), homeserver = Some (baseUrl c),
              login_token = Some (resp_login_token resp), outcome = None, deviceId = None,
              deviceKeys = None\<rparr>]
       \<and> filter is_ChannelSend (events_since s (snd (confirmLoginOnExistingDevice s))) =
           [ChannelSend \<lparr>payload_user = Some (getUserId c w1), homeserver = Some (baseUrl c),
              login_token = Some (resp_login_token resp), outcome = None, deviceId = None,
              deviceKeys = None\<rparr>]"
  using confirm_request_returned [OF assms]
  by (auto simp add: login_offer_def split: prod.splits sum.splits option.splits)

theorem confirmLoginOnExistingDevice_sends_offer_witness:
  "filter is_ChannelSend (events_since (ex_state (ex_client 0 []) None None None None)
      (snd (confirmLoginOnExistingDevice (ex_state (ex_client 0 []) None None None None)))) =
     [ChannelSend \<lparr>payload_user = Some ''@alice:example.org'',
        homeserver = Some ''https://example.org'', login_token = Some ''tok1'',
        outcome = None, deviceId = None, deviceKeys = None\<rparr>]"
  using confirmLoginOnExistingDevice_sends_offer
    [where s = "ex_state (ex_client 0 []) None None None None" and c = "ex_client 0 []"
       and resp = "\<lparr>resp_login_token = ''tok1'', resp_expires_in = 120\<rparr>" and ?w1.0 = 0]
  by (simp add: ex_defs)

text \<open>
  Claim C7. After the offer has been sent, \<open>confirmLoginOnExistingDevice\<close> returns
  \<open>undefined\<close> when the channel yields no response; throws \<open>Linking failed\<close> when the
  response's outcome is not \<open>success\<close>; and otherwise stores the response's
  \<open>deviceId\<close> and \<open>deviceKeys\<close> in the fields \<open>newDeviceId\<close> and \<open>newDeviceKeys\<close> and
  returns that device id. The run makes exactly three calls: the token request, the send,
  the receive.
\<close>

theorem confirmLoginOnExistingDevice_outcomes:
  assumes "cli (this s) = Some c"
    and "authedRequest c ''POST'' ''/login/token'' (world s) = (Inr resp, w1)"
    and "channel_send (channel (this s))
           (login_offer (getUserId c w1) (baseUrl c) (resp_login_token resp)) w1 = (Inr (), w2)"
    and "channel_receive (channel (this s)) w2 = (Inr res, w3)"
  shows "(res = None \<longrightarrow>
            fst (confirmLoginOnExistingDevice s) = Inr None
            \<and> this (snd (confirmLoginOnExistingDevice s)) = this s)
       \<and> (\<forall>p. res = Some p \<and> outcome p \<noteq> Some ''success'' \<longrightarrow>
            fst (confirmLoginOnExistingDevice s) = Inl (Error ''Linking failed''))
       \<and> (\<forall>p. res = Some p \<and> outcome p = Some ''success'' \<longrightarrow>
            fst (confirmLoginOnExistingDevice s) = Inr (deviceId p)
            \<and> this (snd (confirmLoginOnExistingDevice s)) =
                (this s)\<lparr>newDeviceId := deviceId p, newDeviceKeys := deviceKeys p\<rparr>
            \<and> newDeviceId (this (snd (confirmLoginOnExistingDevice s))) = deviceId p
            \<and> newDeviceKeys (this (snd (confirmLoginOnExistingDevice s))) = deviceKeys p)
       \<and> events_since s (snd (confirmLoginOnExistingDevice s)) =
            [AuthedRequest ''POST'' ''/login/token'',
             ChannelSend (login_offer (getUserId c w1) (baseUrl c) (resp_login_token resp)),
             ChannelReceive]"
  using confirm_received [OF assms]
  by (cases res) auto

theorem confirmLoginOnExistingDevice_outcomes_witness:
  "fst (confirmLoginOnExistingDevice
      (ex_state (ex_client 0 [])
         (Some (empty_payload\<lparr>outcome := Some ''success'', deviceId := Some ''DEV1'',
            deviceKeys := Some [(''ed25519'', ''K1'')]\<rparr>)) None None None))
     = Inr (Some ''DEV1'')
   \<and> newDeviceId (this (snd (confirmLoginOnExistingDevice
      (ex_state (ex_client 0 [])
         (Some (empty_payload\<lparr>outcome := Some ''success'', deviceId := Some ''DEV1'',
            deviceKeys := Some [(''ed25519'', ''K1'')]\<rparr>)) None None None))))
     = Some ''DEV1''
   \<and> newDeviceKeys (this (snd (confirmLoginOnExistingDevice
      (ex_state (ex_client 0 [])
         (Some (empty_payload\<lparr>outcome := Some ''success'', deviceId := Some ''DEV1'',
            deviceKeys := Some [(''ed25519'', ''K1'')]\<rparr>)) None None None))))
     = Some [(''ed25519'', ''K1'')]"
  using confirmLoginOnExistingDevice_outcomes
    [where s = "ex_state (ex_client 0 [])
         (Some (empty_payload\<lparr>outcome := Some ''success'', deviceId := Some ''DEV1'',
            deviceKeys := Some [(''ed25519'', ''K1'')]\<rparr>)) None None None"
       and c = "ex_client 0 []"
       and resp = "\<lparr>resp_login_token = ''tok1'', resp_expires_in = 120\<rparr>"
       and ?w1.0 = 0 and ?w2.0 = 0 and ?w3.0 = 0
       and res = "Some (empty_payload\<lparr>outcome := Some ''success'', deviceId := Some ''DEV1'',
            deviceKeys := Some [(''ed25519'', ''K1'')]\<rparr>)"]
  by (simp add: ex_defs empty_payload_def)

text \<open>
  Claim C8. In both roles a \<open>receive\<close> that yields nothing gives an empty result, not a
  thrown error: \<open>completeOnNewDevice\<close> and \<open>confirmLoginOnExistingDevice\<close> both return
  \<open>undefined\<close>, and neither makes a call after the receive.
\<close>

theorem receive_nothing_is_no_result:
  "(channel_connect (channel (this s)) (world s) = (Inr digits, w1)
      \<and> digits_shown (this s) digits w1 w2
      \<and> channel_receive (channel (this s)) w2 = (Inr None, w3)
    \<longrightarrow> completeOnNewDevice im s =
          (Inr None, s\<lparr>world := w3,
             trace := trace s @ ChannelConnect # digits_events (this s) digits
                        @ [ChannelReceive]\<rparr>))
   \<and>
   (cli (this s) = Some c
      \<and> authedRequest c ''POST'' ''/login/token'' (world s) = (Inr resp, v1)
      \<and> channel_send (channel (this s))
           (login_offer (getUserId c v1) (baseUrl c) (resp_login_token resp)) v1 = (Inr (), v2)
      \<and> channel_receive (channel (this s)) v2 = (Inr None, v3)
    \<longrightarrow> confirmLoginOnExistingDevice s =
          (Inr None, s\<lparr>world := v3,
             trace := trace s @ [AuthedRequest ''POST'' ''/login/token'',
               ChannelSend (login_offer (getUserId c v1) (baseUrl c) (resp_login_token resp)),
               ChannelReceive]\<rparr>))"
proof (intro conjI impI)
  assume "channel_connect (channel (this s)) (world s) = (Inr digits, w1)
      \<and> digits_shown (this s) digits w1 w2
      \<and> channel_receive (channel (this s)) w2 = (Inr None, w3)"
  then show "completeOnNewDevice im s =
          (Inr None, s\<lparr>world := w3,
             trace := trace s @ ChannelConnect # digits_events (this s) digits
                        @ [ChannelReceive]\<rparr>)"
    using complete_received [of s digits w1 w2 None w3 im] by simp
next
  assume "cli (this s) = Some c
      \<and> authedRequest c ''POST'' ''/login/token'' (world s) = (Inr resp, v1)
      \<and> channel_send (channel (this s))
           (login_offer (getUserId c v1) (baseUrl c) (resp_login_token resp)) v1 = (Inr (), v2)
      \<and> channel_receive (channel (this s)) v2 = (Inr None, v3)"
  then show "confirmLoginOnExistingDevice s =
          (Inr None, s\<lparr>world := v3,
             trace := trace s @ [AuthedRequest ''POST'' ''/login/token'',
               ChannelSend (login_offer (getUserId c v1) (baseUrl c) (resp_login_token resp)),
               ChannelReceive]\<rparr>)"
    using confirm_received [of s c resp v1 v2 None v3] by simp
qed

theorem receive_nothing_is_no_result_witness:
  "fst (completeOnNewDevice ex_modules (ex_state (ex_client 0 []) None None None None))
     = Inr None
   \<and> fst (confirmLoginOnExistingDevice (ex_state (ex_client 0 []) None None None None))
     = Inr None"
  using receive_nothing_is_no_result
    [where s = "ex_state (ex_client 0 []) None None None None" and im = ex_modules
       and digits = "''1234''" and ?w1.0 = 0 and ?w2.0 = 0 and ?w3.0 = 0
       and c = "ex_client 0 []"
       and resp = "\<lparr>resp_login_token = ''tok1'', resp_expires_in = 120\<rparr>"
       and ?v1.0 = 0 and ?v2.0 = 0 and ?v3.0 = 0]
  by (simp add: ex_defs digits_shown_def)

text \<open>
  Claim C10. \<open>confirmLoginOnExistingDevice\<close> assigns \<open>newDeviceId\<close> and
  \<open>newDeviceKeys\<close> only on success. For every run: if it throws (whatever the error and
  wherever it comes from), both fields are unchanged; if the channel yields no response,
  it returns \<open>undefined\<close> and both fields are unchanged; if the response's outcome is not
  \<open>success\<close>, it throws \<open>Linking failed\<close> and both fields are unchanged; and if
  either field has changed, then the channel delivered a response with outcome
  \<open>success\<close> and the fields hold that response's \<open>deviceId\<close> and \<open>deviceKeys\<close>.
\<close>

theorem confirmLoginOnExistingDevice_atomic:
  assumes run: "confirmLoginOnExistingDevice s = (r, s')"
  shows "(\<forall>e. r = Inl e \<longrightarrow>
            newDeviceId (this s') = newDeviceId (this s)
            \<and> newDeviceKeys (this s') = newDeviceKeys (this s))
       \<and> (\<forall>c resp w1 w2 w3 res.
            cli (this s) = Some c
            \<and> authedRequest c ''POST'' ''/login/token'' (world s) = (Inr resp, w1)
            \<and> channel_send (channel (this s))
                 (login_offer (getUserId c w1) (baseUrl c) (resp_login_token resp)) w1
                 = (Inr (), w2)
            \<and> channel_receive (channel (this s)) w2 = (Inr res, w3)
            \<and> (case res of None \<Rightarrow> True | Some p \<Rightarrow> outcome p \<noteq> Some ''success'')
            \<longrightarrow> r = (case res of None \<Rightarrow> Inr None | Some p \<Rightarrow> Inl (Error ''Linking failed''))
                \<and> newDeviceId (this s') = newDeviceId (this s)
                \<and> newDeviceKeys (this s') = newDeviceKeys (this s))
       \<and> (newDeviceId (this s') \<noteq> newDeviceId (this s)
            \<or> newDeviceKeys (this s') \<noteq> newDeviceKeys (this s)
            \<longrightarrow> (\<exists>c resp w1 w2 w3 p.
                  cli (this s) = Some c
                  \<and> authedRequest c ''POST'' ''/login/token'' (world s) = (Inr resp, w1)
                  \<and> channel_send (channel (this s))
                       (login_offer (getUserId c w1) (baseUrl c) (resp_login_token resp)) w1
                       = (Inr (), w2)
                  \<and> channel_receive (channel (this s)) w2 = (Inr (Some p), w3)
                  \<and> outcome p = Some ''success''
                  \<and> r = Inr (deviceId p)
                  \<and> newDeviceId (this s') = deviceId p
                  \<and> newDeviceKeys (this s') = deviceKeys p))"
proof (intro conjI allI impI)
  fix e assume "r = Inl e"
  with confirm_session [OF run]
  show "newDeviceId (this s') = newDeviceId (this s)"
    and "newDeviceKeys (this s') = newDeviceKeys (this s)"
    by auto
next
  fix c resp w1 w2 w3 res
  assume h: "cli (this s) = Some c
            \<and> authedRequest c ''POST'' ''/login/token'' (world s) = (Inr resp, w1)
            \<and> channel_send (channel (this s))
                 (login_offer (getUserId c w1) (baseUrl c) (resp_login_token resp)) w1
                 = (Inr (), w2)
            \<and> channel_receive (channel (this s)) w2 = (Inr res, w3)
            \<and> (case res of None \<Rightarrow> True | Some p \<Rightarrow> outcome p \<noteq> Some ''success'')"
  then have eq: "confirmLoginOnExistingDevice s =
      (case res of None \<Rightarrow> Inr None | Some p \<Rightarrow> Inl (Error ''Linking failed''),
       s\<lparr>world := w3, trace := trace s @ [AuthedRequest ''POST'' ''/login/token'',
          ChannelSend (login_offer (getUserId c w1) (baseUrl c) (resp_login_token resp)),
          ChannelReceive]\<rparr>)"
    using confirm_received [of s c resp w1 w2 res w3] by (auto split: option.splits)
  with run show "r = (case res of None \<Rightarrow> Inr None | Some p \<Rightarrow> Inl (Error ''Linking failed''))"
    and "newDeviceId (this s') = newDeviceId (this s)"
    and "newDeviceKeys (this s') = newDeviceKeys (this s)"
    by auto
next
  assume changed: "newDeviceId (this s') \<noteq> newDeviceId (this s)
            \<or> newDeviceKeys (this s') \<noteq> newDeviceKeys (this s)"
  with run show "\<exists>c resp w1 w2 w3 p.
                  cli (this s) = Some c
                  \<and> authedRequest c ''POST'' ''/login/token'' (world s) = (Inr resp, w1)
                  \<and> channel_send (channel (this s))
                       (login_offer (getUserId c w1) (baseUrl c) (resp_login_token resp)) w1
                       = (Inr (), w2)
                  \<and> channel_receive (channel (this s)) w2 = (Inr (Some p), w3)
                  \<and> outcome p = Some ''success''
                  \<and> r = Inr (deviceId p)
                  \<and> newDeviceId (this s') = deviceId p
                  \<and> newDeviceKeys (this s') = deviceKeys p"
    by (auto simp add: confirmLoginOnExistingDevice_def monad_defs login_offer_literal
        split: option.splits prod.splits sum.splits if_splits)
qed

theorem confirmLoginOnExistingDevice_atomic_witness:
  "confirmLoginOnExistingDevice
     (ex_state (ex_client 0 []) (Some (empty_payload\<lparr>outcome := Some ''declined''\<rparr>))
        (Some ''OLD'') (Some [(''ed25519'', ''K0'')]) None)
   = (Inl (Error ''Linking failed''),
      (ex_state (ex_client 0 []) (Some (empty_payload\<lparr>outcome := Some ''declined''\<rparr>))
        (Some ''OLD'') (Some [(''ed25519'', ''K0'')]) None)
       \<lparr>world := 0, trace := [AuthedRequest ''POST'' ''/login/token'',
          ChannelSend (login_offer ''@alice:example.org'' ''https://example.org'' ''tok1''),
          ChannelReceive]\<rparr>)
   \<and> newDeviceId (this (snd (confirmLoginOnExistingDevice
        (ex_state (ex_client 0 []) (Some (empty_payload\<lparr>outcome := Some ''declined''\<rparr>))
           (Some ''OLD'') (Some [(''ed25519'', ''K0'')]) None)))) = Some ''OLD''
   \<and> newDeviceKeys (this (snd (confirmLoginOnExistingDevice
        (ex_state (ex_client 0 []) (Some (empty_payload\<lparr>outcome := Some ''declined''\<rparr>))
           (Some ''OLD'') (Some [(''ed25519'', ''K0'')]) None)))) = Some [(''ed25519'', ''K0'')]"
proof -
  have run: "confirmLoginOnExistingDevice
     (ex_state (ex_client 0 []) (Some (empty_payload\<lparr>outcome := Some ''declined''\<rparr>))
        (Some ''OLD'') (Some [(''ed25519'', ''K0'')]) None)
   = (Inl (Error ''Linking failed''),
      (ex_state (ex_client 0 []) (Some (empty_payload\<lparr>outcome := Some ''declined''\<rparr>))
        (Some ''OLD'') (Some [(''ed25519'', ''K0'')]) None)
       \<lparr>world := 0, trace := [AuthedRequest ''POST'' ''/login/token'',
          ChannelSend (login_offer ''@alice:example.org'' ''https://example.org'' ''tok1''),
          ChannelReceive]\<rparr>)"
    by (simp add: confirmLoginOnExistingDevice_def monad_defs ex_defs empty_payload_def
          login_offer_def)
  from confirmLoginOnExistingDevice_atomic [OF run]
  have "newDeviceId (this ((ex_state (ex_client 0 []) (Some (empty_payload\<lparr>outcome := Some ''declined''\<rparr>))
        (Some ''OLD'') (Some [(''ed25519'', ''K0'')]) None)
       \<lparr>world := 0, trace := [AuthedRequest ''POST'' ''/login/token'',
          ChannelSend (login_offer ''@alice:example.org'' ''https://example.org'' ''tok1''),
          ChannelReceive]\<rparr>)) = newDeviceId (this (ex_state (ex_client 0 []) (Some (empty_payload\<lparr>outcome := Some ''declined''\<rparr>))
        (Some ''OLD'') (Some [(''ed25519'', ''K0'')]) None))
     \<and> newDeviceKeys (this ((ex_state (ex_client 0 []) (Some (empty_payload\<lparr>outcome := Some ''declined''\<rparr>))
        (Some ''OLD'') (Some [(''ed25519'', ''K0'')]) None)
       \<lparr>world := 0, trace := [AuthedRequest ''POST'' ''/login/token'',
          ChannelSend (login_offer ''@alice:example.org'' ''https://example.org'' ''tok1''),
          ChannelReceive]\<rparr>)) = newDeviceKeys (this (ex_state (ex_client 0 []) (Some (empty_payload\<lparr>outcome := Some ''declined''\<rparr>))
        (Some ''OLD'') (Some [(''ed25519'', ''K0'')]) None))"
    by blast
  with run show ?thesis by (simp add: ex_state_def)
qed

text \<open>
  Claim C4, as the claim states it, does not hold: a response with outcome \<open>success\<close>
  and no \<open>deviceId\<close> does not make \<open>confirmLoginOnExistingDevice\<close> fail. The method
  returns normally (with \<open>undefined\<close>, the missing device id) and has stored the reported
  keys in \<open>newDeviceKeys\<close>.
\<close>

theorem missing_field_counterexample:
  "confirmLoginOnExistingDevice
     (ex_state (ex_client 0 [])
        (Some (empty_payload\<lparr>outcome := Some ''success'',
           deviceKeys := Some [(''ed25519'', ''K1'')]\<rparr>)) None None None)
   = (Inr None,
      (ex_state (ex_client 0 [])
        (Some (empty_payload\<lparr>outcome := Some ''success'',
           deviceKeys := Some [(''ed25519'', ''K1'')]\<rparr>)) None
           (Some [(''ed25519'', ''K1'')]) None)
       \<lparr>world := 0, trace := [AuthedRequest ''POST'' ''/login/token'',
          ChannelSend (login_offer ''@alice:example.org'' ''https://example.org'' ''tok1''),
          ChannelReceive]\<rparr>)"
  by (simp add: confirmLoginOnExistingDevice_def monad_defs ex_defs empty_payload_def
        login_offer_def)

text \<open>
  Claim C4, amended. \<open>completeOnNewDevice\<close> fails at once, with an error naming the
  field, on a payload (not \<open>declined\<close>) whose \<open>homeserver\<close> or \<open>login_token\<close> is
  missing. \<open>confirmLoginOnExistingDevice\<close> fails at once with \<open>Linking failed\<close> on a
  response whose outcome is not \<open>success\<close>, but it does not check \<open>deviceId\<close>: on a
  \<open>success\<close> response with no device id it throws nothing, returns that missing id
  (\<open>undefined\<close>, which its caller cannot tell from no response) and stores the missing
  id and the reported keys. The missing id is refused later: \<open>crossSign\<close> on the
  resulting session throws \<open>No new device to sign\<close> and makes no call.
\<close>

theorem missing_field_handling:
  "(channel_connect (channel (this s)) (world s) = (Inr digits, w1)
      \<and> digits_shown (this s) digits w1 w2
      \<and> channel_receive (channel (this s)) w2 = (Inr (Some p), w3)
      \<and> outcome p \<noteq> Some ''declined''
      \<and> (\<not> truthy (homeserver p) \<or> \<not> truthy (login_token p))
    \<longrightarrow> fst (completeOnNewDevice im s) =
          Inl (Error (if \<not> truthy (homeserver p) then ''No homeserver returned''
                      else ''No login token returned'')))
   \<and>
   (cli (this s) = Some c
      \<and> authedRequest c ''POST'' ''/login/token'' (world s) = (Inr resp, v1)
      \<and> channel_send (channel (this s))
           (login_offer (getUserId c v1) (baseUrl c) (resp_login_token resp)) v1 = (Inr (), v2)
      \<and> channel_receive (channel (this s)) v2 = (Inr (Some q), v3)
    \<longrightarrow> (outcome q \<noteq> Some ''success'' \<longrightarrow>
            fst (confirmLoginOnExistingDevice s) = Inl (Error ''Linking failed''))
        \<and> (outcome q = Some ''success'' \<and> \<not> truthy (deviceId q) \<longrightarrow>
            fst (confirmLoginOnExistingDevice s) = Inr (deviceId q)
            \<and> newDeviceId (this (snd (confirmLoginOnExistingDevice s))) = deviceId q
            \<and> newDeviceKeys (this (snd (confirmLoginOnExistingDevice s))) = deviceKeys q
            \<and> crossSign im t (snd (confirmLoginOnExistingDevice s)) =
                (Inl (Error ''No new device to sign''), snd (confirmLoginOnExistingDevice s))))"
proof (intro conjI impI)
  assume "channel_connect (channel (this s)) (world s) = (Inr digits, w1)
      \<and> digits_shown (this s) digits w1 w2
      \<and> channel_receive (channel (this s)) w2 = (Inr (Some p), w3)
      \<and> outcome p \<noteq> Some ''declined''
      \<and> (\<not> truthy (homeserver p) \<or> \<not> truthy (login_token p))"
  then show "fst (completeOnNewDevice im s) =
          Inl (Error (if \<not> truthy (homeserver p) then ''No homeserver returned''
                      else ''No login token returned''))"
    using complete_received [of s digits w1 w2 "Some p" w3 im] by auto
next
  assume h: "cli (this s) = Some c
      \<and> authedRequest c ''POST'' ''/login/token'' (world s) = (Inr resp, v1)
      \<and> channel_send (channel (this s))
           (login_offer (getUserId c v1) (baseUrl c) (resp_login_token resp)) v1 = (Inr (), v2)
      \<and> channel_receive (channel (this s)) v2 = (Inr (Some q), v3)"
  {
    assume "outcome q \<noteq> Some ''success''"
    with h show "fst (confirmLoginOnExistingDevice s) = Inl (Error ''Linking failed'')"
      using confirm_received [of s c resp v1 v2 "Some q" v3] by simp
  }
  {
    assume ok: "outcome q = Some ''success'' \<and> \<not> truthy (deviceId q)"
    with h have eq: "confirmLoginOnExistingDevice s =
        (Inr (deviceId q),
         s\<lparr>this := (this s)\<lparr>newDeviceId := deviceId q, newDeviceKeys := deviceKeys q\<rparr>,
           world := v3, trace := trace s @ [AuthedRequest ''POST'' ''/login/token'',
            ChannelSend (login_offer (getUserId c v1) (baseUrl c) (resp_login_token resp)),
            ChannelReceive]\<rparr>)"
      using confirm_received [of s c resp v1 v2 "Some q" v3] by simp
    then show "fst (confirmLoginOnExistingDevice s) = Inr (deviceId q)"
      and "newDeviceId (this (snd (confirmLoginOnExistingDevice s))) = deviceId q"
      and "newDeviceKeys (this (snd (confirmLoginOnExistingDevice s))) = deviceKeys q"
      by simp_all
    from eq ok show "crossSign im t (snd (confirmLoginOnExistingDevice s)) =
                (Inl (Error ''No new device to sign''), snd (confirmLoginOnExistingDevice s))"
      by (intro crossSign_no_device) simp
  }
qed

theorem missing_field_handling_witness:
  "fst (completeOnNewDevice ex_modules
      (ex_state (ex_client 0 [])
         (Some (empty_payload\<lparr>outcome := Some ''offer'', login_token := Some ''tok1''\<rparr>))
         None None None))
     = Inl (Error ''No homeserver returned'')
   \<and> fst (confirmLoginOnExistingDevice
      (ex_state (ex_client 0 [])
         (Some (empty_payload\<lparr>outcome := Some ''success'',
            deviceKeys := Some [(''ed25519'', ''K1'')]\<rparr>)) None None None))
     = Inr None
   \<and> fst (crossSign ex_modules None (snd (confirmLoginOnExistingDevice
      (ex_state (ex_client 0 [])
         (Some (empty_payload\<lparr>outcome := Some ''success'',
            deviceKeys := Some [(''ed25519'', ''K1'')]\<rparr>)) None None None))))
     = Inl (Error ''No new device to sign'')
   \<and> fst (confirmLoginOnExistingDevice
      (ex_state (ex_client 0 [])
         (Some (empty_payload\<lparr>deviceId := Some ''DEV1''\<rparr>)) None None None))
     = Inl (Error ''Linking failed'')"
  using
    missing_field_handling
      [where s = "ex_state (ex_client 0 [])
         (Some (empty_payload\<lparr>outcome := Some ''offer'', login_token := Some ''tok1''\<rparr>))
         None None None"
         and im = ex_modules and digits = "''1234''" and ?w1.0 = 0 and ?w2.0 = 0 and ?w3.0 = 0
         and p = "empty_payload\<lparr>outcome := Some ''offer'', login_token := Some ''tok1''\<rparr>"]
    missing_field_handling
      [where s = "ex_state (ex_client 0 [])
         (Some (empty_payload\<lparr>outcome := Some ''success'',
            deviceKeys := Some [(''ed25519'', ''K1'')]\<rparr>)) None None None"
         and im = ex_modules and t = None and c = "ex_client 0 []"
         and resp = "\<lparr>resp_login_token = ''tok1'', resp_expires_in = 120\<rparr>"
         and ?v1.0 = 0 and ?v2.0 = 0 and ?v3.0 = 0
         and q = "empty_payload\<lparr>outcome := Some ''success'',
            deviceKeys := Some [(''ed25519'', ''K1'')]\<rparr>"]
    missing_field_handling
      [where s = "ex_state (ex_client 0 [])
         (Some (empty_payload\<lparr>deviceId := Some ''DEV1''\<rparr>)) None None None"
         and c = "ex_client 0 []"
         and resp = "\<lparr>resp_login_token = ''tok1'', resp_expires_in = 120\<rparr>"
         and ?v1.0 = 0 and ?v2.0 = 0 and ?v3.0 = 0
         and q = "empty_payload\<lparr>deviceId := Some ''DEV1''\<rparr>"]
  by (simp add: ex_defs digits_shown_def empty_payload_def login_offer_def truthy_def
        truthy_string_def)

subsection \<open>The key-match check: \<open>checkAndCrossSignDevice\<close>\<close>

text \<open>The loop returns at the first key, in the order of \<open>Object.keys\<close>, whose values differ.\<close>

lemma check_each_key_find:
  "check_each_key stored reported ks =
     (case find (\<lambda>k. get_prop stored k \<noteq> get_prop reported k) ks of
        None \<Rightarrow> Inr ()
      | Some k \<Rightarrow> Inl (Error (''New device has different keys than expected for '' @ k)))"
  by (induction ks) simp_all

lemma check_run:
  assumes "newDeviceKeys (this s) = Some reported"
  shows "checkAndCrossSignDevice d s =
    (if length (keys d) \<noteq> length reported then
       (Inl (Error (''New device has different keys than expected: ''
                      @ Number_toString (length (keys d))
                      @ '' vs '' @ Number_toString (length reported))), s)
     else
       (case find (\<lambda>k. get_prop (keys d) k \<noteq> get_prop reported k) (Object_keys reported) of
          Some k \<Rightarrow>
            (Inl (Error (''New device has different keys than expected for '' @ k)), s)
        | None \<Rightarrow>
           (case cli (this s) of
              None \<Rightarrow> (Inl (TypeError ''this.cli''), s)
            | Some c \<Rightarrow>
               (case crypto c of
                  None \<Rightarrow> (Inl (TypeError ''this.cli.crypto''), s)
                | Some cr \<Rightarrow>
                   (case setDeviceVerification cr (getUserId c (world s))
                           (newDeviceId (this s)) True False True (world s) of
                      (r, w') \<Rightarrow>
                        (r, s\<lparr>world := w',
                              trace := trace s @ [SetDeviceVerification (getUserId c (world s))
                                (newDeviceId (this s)) True False True]\<rparr>))))))"
  using assms
  by (simp add: checkAndCrossSignDevice_def monad_defs check_each_key_find Object_keys_def
      split: option.splits prod.splits)

lemma check_no_keys:
  "newDeviceKeys (this s) = None \<Longrightarrow>
   checkAndCrossSignDevice d s = (Inl (TypeError ''this.newDeviceKeys''), s)"
  by (simp add: checkAndCrossSignDevice_def monad_defs)

text \<open>
  For objects (distinct keys), equal counts and equal values at every reported key mean
  that the two records hold exactly the same entries.
\<close>

lemma same_entries:
  assumes dx: "distinct (Object_keys xs)" and dy: "distinct (Object_keys ys)"
    and len: "length xs = length ys"
    and eq: "\<forall>k \<in> set (Object_keys ys). get_prop xs k = get_prop ys k"
  shows "set xs = set ys"
proof -
  have sub: "set (Object_keys ys) \<subseteq> set (Object_keys xs)"
  proof
    fix k assume k: "k \<in> set (Object_keys ys)"
    then have "k \<in> dom (map_of ys)"
      by (simp add: dom_map_of_conv_image_fst Object_keys_def)
    then obtain v where "map_of ys k = Some v"
      by blast
    with eq k have "map_of xs k = Some v" by (simp add: get_prop_def)
    then show "k \<in> set (Object_keys xs)"
      by (auto simp add: Object_keys_def dest: map_of_SomeD intro: rev_image_eqI)
  qed
  have "card (set (Object_keys xs)) = card (set (Object_keys ys))"
    using distinct_card [OF dx] distinct_card [OF dy] len by (simp add: Object_keys_def)
  with sub have keys_eq: "set (Object_keys ys) = set (Object_keys xs)"
    by (intro card_subset_eq) simp_all
  have "map_of xs = map_of ys"
  proof
    fix k
    show "map_of xs k = map_of ys k"
    proof (cases "k \<in> set (Object_keys ys)")
      case True
      with eq show ?thesis by (simp add: get_prop_def)
    next
      case False
      with keys_eq have "k \<notin> fst ` set xs" and "k \<notin> fst ` set ys"
        by (simp_all add: Object_keys_def)
      then have "map_of xs k = None" and "map_of ys k = None"
        by (simp_all add: map_of_eq_None_iff)
      then show ?thesis by simp
    qed
  qed
  with dx dy show ?thesis
    by (simp add: map_of_inject_set Object_keys_def)
qed

text \<open>
  Claim C1. The key-match check compares the stored device's keys with the remembered
  \<open>newDeviceKeys\<close>. (1) When the two records have different numbers of keys it throws
  an error that names the expected (stored) and the actual (reported) count, in decimal.
  (2) When the counts are equal and some reported key id has a stored value that differs
  from the reported one, it throws an error naming such a key id; (3) when exactly one
  reported key id differs, the error names that key id. (4) When the counts are equal and
  every reported key id has the same value in both, it calls
  \<open>setDeviceVerification(userId, newDeviceId, true, false, true)\<close> once and returns what
  that call returns. (5) Only then: a run of the check that makes any call has equal counts
  and equal values; in cases (1) to (3) the state is unchanged and no call is made.
  (6) For two objects (each key once) such a run means that the stored and the reported
  record hold exactly the same entries.
  Values are compared as JavaScript's \<open>!==\<close> does: a key the stored device does not
  have reads \<open>undefined\<close> and differs from every reported string.
\<close>

theorem key_match_check:
  assumes "newDeviceKeys (this s) = Some reported"
    and "cli (this s) = Some c"
    and "crypto c = Some cr"
  shows
   "(length (keys d) \<noteq> length reported \<longrightarrow>
       checkAndCrossSignDevice d s =
         (Inl (Error (''New device has different keys than expected: ''
                        @ Number_toString (length (keys d))
                        @ '' vs '' @ Number_toString (length reported))), s))
    \<and> (length (keys d) = length reported
        \<and> (\<exists>k \<in> set (Object_keys reported). get_prop (keys d) k \<noteq> get_prop reported k) \<longrightarrow>
       (\<exists>k \<in> set (Object_keys reported). get_prop (keys d) k \<noteq> get_prop reported k
          \<and> checkAndCrossSignDevice d s =
            (Inl (Error (''New device has different keys than expected for '' @ k)), s)))
    \<and> (\<forall>k. length (keys d) = length reported
        \<and> k \<in> set (Object_keys reported) \<and> get_prop (keys d) k \<noteq> get_prop reported k
        \<and> (\<forall>k' \<in> set (Object_keys reported).
              k' \<noteq> k \<longrightarrow> get_prop (keys d) k' = get_prop reported k') \<longrightarrow>
       checkAndCrossSignDevice d s =
         (Inl (Error (''New device has different keys than expected for '' @ k)), s))
    \<and> (length (keys d) = length reported
        \<and> (\<forall>k \<in> set (Object_keys reported). get_prop (keys d) k = get_prop reported k) \<longrightarrow>
       checkAndCrossSignDevice d s =
         (case setDeviceVerification cr (getUserId c (world s)) (newDeviceId (this s))
                 True False True (world s) of
            (r, w') \<Rightarrow>
              (r, s\<lparr>world := w',
                    trace := trace s @ [SetDeviceVerification (getUserId c (world s))
                      (newDeviceId (this s)) True False True]\<rparr>)))
    \<and> (events_since s (snd (checkAndCrossSignDevice d s)) \<noteq> [] \<longrightarrow>
       length (keys d) = length reported
       \<and> (\<forall>k \<in> set (Object_keys reported). get_prop (keys d) k = get_prop reported k))
    \<and> (distinct (Object_keys (keys d)) \<and> distinct (Object_keys reported)
        \<and> events_since s (snd (checkAndCrossSignDevice d s)) \<noteq> [] \<longrightarrow>
       set (keys d) = set reported)"
proof (intro conjI)
  let ?differs = "\<lambda>k. get_prop (keys d) k \<noteq> get_prop reported k"
  let ?mismatch = "\<lambda>k. (Inl (Error (''New device has different keys than expected for '' @ k)), s)"
  note run = check_run [OF assms(1), of d]
  show count: "length (keys d) \<noteq> length reported \<longrightarrow>
       checkAndCrossSignDevice d s =
         (Inl (Error (''New device has different keys than expected: ''
                        @ Number_toString (length (keys d))
                        @ '' vs '' @ Number_toString (length reported))), s)"
    by (simp add: run)
  have found: "checkAndCrossSignDevice d s = ?mismatch k"
    if "length (keys d) = length reported"
      and "find ?differs (Object_keys reported) = Some k" for k
    using that by (simp add: run)
  show first: "length (keys d) = length reported
        \<and> (\<exists>k \<in> set (Object_keys reported). get_prop (keys d) k \<noteq> get_prop reported k) \<longrightarrow>
       (\<exists>k \<in> set (Object_keys reported). get_prop (keys d) k \<noteq> get_prop reported k
          \<and> checkAndCrossSignDevice d s = ?mismatch k)"
  proof
    assume h: "length (keys d) = length reported
        \<and> (\<exists>k \<in> set (Object_keys reported). ?differs k)"
    then have "find ?differs (Object_keys reported) \<noteq> None"
      unfolding find_None_iff by blast
    then obtain k where f: "find ?differs (Object_keys reported) = Some k"
      by blast
    then have "k \<in> set (Object_keys reported)" and "?differs k"
      by (auto simp add: find_Some_iff)
    moreover from h f have "checkAndCrossSignDevice d s = ?mismatch k"
      by (intro found) simp_all
    ultimately show "\<exists>k \<in> set (Object_keys reported). ?differs k
          \<and> checkAndCrossSignDevice d s = ?mismatch k"
      by (intro bexI [of _ k] conjI)
  qed
  show "\<forall>k. length (keys d) = length reported
        \<and> k \<in> set (Object_keys reported) \<and> get_prop (keys d) k \<noteq> get_prop reported k
        \<and> (\<forall>k' \<in> set (Object_keys reported).
              k' \<noteq> k \<longrightarrow> get_prop (keys d) k' = get_prop reported k') \<longrightarrow>
       checkAndCrossSignDevice d s = ?mismatch k"
  proof (intro allI impI)
    fix k
    assume h: "length (keys d) = length reported
        \<and> k \<in> set (Object_keys reported) \<and> ?differs k
        \<and> (\<forall>k' \<in> set (Object_keys reported).
              k' \<noteq> k \<longrightarrow> get_prop (keys d) k' = get_prop reported k')"
    then have "length (keys d) = length reported
        \<and> (\<exists>k \<in> set (Object_keys reported). ?differs k)"
      by (intro conjI bexI [of _ k]) simp_all
    with first have "\<exists>k \<in> set (Object_keys reported). ?differs k
          \<and> checkAndCrossSignDevice d s = ?mismatch k"
      by (rule mp)
    then obtain k0 where k0: "k0 \<in> set (Object_keys reported)" "?differs k0"
      and r: "checkAndCrossSignDevice d s = ?mismatch k0"
      by (elim bexE conjE)
    have "k0 = k"
    proof (rule ccontr)
      assume "k0 \<noteq> k"
      with h k0(1) have "get_prop (keys d) k0 = get_prop reported k0" by simp
      with k0(2) show False by simp
    qed
    with r show "checkAndCrossSignDevice d s = ?mismatch k"
      by simp
  qed
  show "length (keys d) = length reported
        \<and> (\<forall>k \<in> set (Object_keys reported). get_prop (keys d) k = get_prop reported k) \<longrightarrow>
       checkAndCrossSignDevice d s =
         (case setDeviceVerification cr (getUserId c (world s)) (newDeviceId (this s))
                 True False True (world s) of
            (r, w') \<Rightarrow>
              (r, s\<lparr>world := w',
                    trace := trace s @ [SetDeviceVerification (getUserId c (world s))
                      (newDeviceId (this s)) True False True]\<rparr>))"
  proof
    assume h: "length (keys d) = length reported
        \<and> (\<forall>k \<in> set (Object_keys reported). get_prop (keys d) k = get_prop reported k)"
    then have "find ?differs (Object_keys reported) = None"
      by (simp add: find_None_iff)
    with h assms(2,3) show "checkAndCrossSignDevice d s =
         (case setDeviceVerification cr (getUserId c (world s)) (newDeviceId (this s))
                 True False True (world s) of
            (r, w') \<Rightarrow>
              (r, s\<lparr>world := w',
                    trace := trace s @ [SetDeviceVerification (getUserId c (world s))
                      (newDeviceId (this s)) True False True]\<rparr>))"
      by (simp add: run)
  qed
  show only: "events_since s (snd (checkAndCrossSignDevice d s)) \<noteq> [] \<longrightarrow>
       length (keys d) = length reported
       \<and> (\<forall>k \<in> set (Object_keys reported). get_prop (keys d) k = get_prop reported k)"
  proof
    assume ev: "events_since s (snd (checkAndCrossSignDevice d s)) \<noteq> []"
    have len: "length (keys d) = length reported"
    proof (rule ccontr)
      assume "length (keys d) \<noteq> length reported"
      with ev show False by (simp add: run)
    qed
    have "find ?differs (Object_keys reported) = None"
    proof (cases "find ?differs (Object_keys reported)")
      case None
      then show ?thesis .
    next
      case (Some k)
      with len ev show ?thesis by (simp add: found)
    qed
    with len show "length (keys d) = length reported
       \<and> (\<forall>k \<in> set (Object_keys reported). get_prop (keys d) k = get_prop reported k)"
      by (simp add: find_None_iff)
  qed
  show "distinct (Object_keys (keys d)) \<and> distinct (Object_keys reported)
        \<and> events_since s (snd (checkAndCrossSignDevice d s)) \<noteq> [] \<longrightarrow>
       set (keys d) = set reported"
  proof
    assume h: "distinct (Object_keys (keys d)) \<and> distinct (Object_keys reported)
        \<and> events_since s (snd (checkAndCrossSignDevice d s)) \<noteq> []"
    with only have "length (keys d) = length reported"
      and "\<forall>k \<in> set (Object_keys reported). get_prop (keys d) k = get_prop reported k"
      by simp_all
    with h show "set (keys d) = set reported"
      by (intro same_entries) simp_all
  qed
qed

theorem key_match_check_witness:
  "checkAndCrossSignDevice \<lparr>keys = [(''ed25519'', ''A''), (''curve25519'', ''C'')]\<rparr>
     (ex_state (ex_client 0 []) None (Some ''DEV1'') (Some [(''ed25519'', ''A'')]) None)
   = (Inl (Error ''New device has different keys than expected: 2 vs 1''),
      ex_state (ex_client 0 []) None (Some ''DEV1'') (Some [(''ed25519'', ''A'')]) None)
   \<and> checkAndCrossSignDevice \<lparr>keys = [(''ed25519'', ''A'')]\<rparr>
     (ex_state (ex_client 0 []) None (Some ''DEV1'') (Some [(''ed25519'', ''B'')]) None)
   = (Inl (Error ''New device has different keys than expected for ed25519''),
      ex_state (ex_client 0 []) None (Some ''DEV1'') (Some [(''ed25519'', ''B'')]) None)
   \<and> checkAndCrossSignDevice \<lparr>keys = [(''curve25519'', ''C''), (''ed25519'', ''A'')]\<rparr>
     (ex_state (ex_client 0 []) None (Some ''DEV1'')
        (Some [(''ed25519'', ''A''), (''curve25519'', ''C'')]) None)
   = (Inr ''verified DEV1'',
      (ex_state (ex_client 0 []) None (Some ''DEV1'')
        (Some [(''ed25519'', ''A''), (''curve25519'', ''C'')]) None)
       \<lparr>world := 0, trace := [SetDeviceVerification ''@alice:example.org'' (Some ''DEV1'')
          True False True]\<rparr>)"
proof -
  let ?s1 = "ex_state (ex_client 0 []) None (Some ''DEV1'') (Some [(''ed25519'', ''A'')]) None"
  let ?s2 = "ex_state (ex_client 0 []) None (Some ''DEV1'') (Some [(''ed25519'', ''B'')]) None"
  let ?s3 = "ex_state (ex_client 0 []) None (Some ''DEV1'')
        (Some [(''ed25519'', ''A''), (''curve25519'', ''C'')]) None"
  have cr: "crypto (ex_client 0 []) = Some (ex_crypto 0 [])"
    by (simp add: ex_client_def)
  have "newDeviceKeys (this ?s1) = Some [(''ed25519'', ''A'')]"
    and "cli (this ?s1) = Some (ex_client 0 [])"
    by (simp_all add: ex_state_def)
  from key_match_check [OF this cr,
      of "\<lparr>keys = [(''ed25519'', ''A''), (''curve25519'', ''C'')]\<rparr>", THEN conjunct1]
  have count: "checkAndCrossSignDevice \<lparr>keys = [(''ed25519'', ''A''), (''curve25519'', ''C'')]\<rparr> ?s1
      = (Inl (Error ''New device has different keys than expected: 2 vs 1''), ?s1)"
    by (simp add: Number_toString.simps digit_def)
  have "newDeviceKeys (this ?s2) = Some [(''ed25519'', ''B'')]"
    and "cli (this ?s2) = Some (ex_client 0 [])"
    by (simp_all add: ex_state_def)
  from key_match_check [OF this cr, of "\<lparr>keys = [(''ed25519'', ''A'')]\<rparr>",
      THEN conjunct2, THEN conjunct2, THEN conjunct1, THEN spec, of "''ed25519''"]
  have differ: "checkAndCrossSignDevice \<lparr>keys = [(''ed25519'', ''A'')]\<rparr> ?s2
      = (Inl (Error ''New device has different keys than expected for ed25519''), ?s2)"
    by (simp add: Object_keys_def get_prop_def)
  have "newDeviceKeys (this ?s3) = Some [(''ed25519'', ''A''), (''curve25519'', ''C'')]"
    and "cli (this ?s3) = Some (ex_client 0 [])"
    by (simp_all add: ex_state_def)
  from key_match_check [OF this cr,
      of "\<lparr>keys = [(''curve25519'', ''C''), (''ed25519'', ''A'')]\<rparr>",
      THEN conjunct2, THEN conjunct2, THEN conjunct2, THEN conjunct1]
  have match: "checkAndCrossSignDevice \<lparr>keys = [(''curve25519'', ''C''), (''ed25519'', ''A'')]\<rparr> ?s3
      = (Inr ''verified DEV1'',
         ?s3\<lparr>world := 0, trace := [SetDeviceVerification ''@alice:example.org'' (Some ''DEV1'')
            True False True]\<rparr>)"
    by (simp add: Object_keys_def get_prop_def ex_defs String_of_def)
  from count differ match show ?thesis by (intro conjI)
qed

subsection \<open>Cross-signing: \<open>crossSign\<close>\<close>

text \<open>
  The run of \<open>crossSign\<close> once it has something to sign: the first lookup, and when the
  device is not there the sleep and the second lookup.
\<close>

lemma crossSign_nothing_to_sign:
  "truthy (newDeviceId (this s)) \<Longrightarrow>
   newDeviceKeys (this s) = None \<or> newDeviceKeys (this s) = Some [] \<Longrightarrow>
   crossSign im t s = (Inr None, s)"
  by (auto simp add: crossSign_def monad_defs Let_def Object_values_def)

lemma crossSign_no_client:
  "truthy (newDeviceId (this s)) \<Longrightarrow> newDeviceKeys (this s) = Some ks \<Longrightarrow> ks \<noteq> [] \<Longrightarrow>
   cli (this s) = None \<Longrightarrow>
   crossSign im t s = (Inl (TypeError ''cli''), s)"
  by (simp add: crossSign_def monad_defs Let_def Object_values_def)

lemma crossSign_no_crypto:
  "truthy (newDeviceId (this s)) \<Longrightarrow> newDeviceKeys (this s) = Some ks \<Longrightarrow> ks \<noteq> [] \<Longrightarrow>
   cli (this s) = Some c \<Longrightarrow> crypto c = None \<Longrightarrow>
   crossSign im t s = (Inl (TypeError ''cli.crypto''), s)"
  by (simp add: crossSign_def monad_defs Let_def Object_values_def)

lemma crossSign_lookup:
  assumes "truthy (newDeviceId (this s))"
    and "newDeviceKeys (this s) = Some ks" and "ks \<noteq> []"
    and "cli (this s) = Some c" and "crypto c = Some cr"
    and "getStoredDevice cr (getUserId c (world s)) (newDeviceId (this s)) (world s) = (r1, w1)"
  shows "crossSign im t s =
    (case r1 of
       Inl e \<Rightarrow>
         (Inl e, s\<lparr>world := w1, trace := trace s @
            [GetStoredDevice (getUserId c (world s)) (newDeviceId (this s))]\<rparr>)
     | Inr (Some d) \<Rightarrow>
         (case checkAndCrossSignDevice d (s\<lparr>world := w1, trace := trace s @
                 [GetStoredDevice (getUserId c (world s)) (newDeviceId (this s))]\<rparr>) of
            (r, s') \<Rightarrow> (map_sum id Some r, s'))
     | Inr None \<Rightarrow>
         (case sleep im (timeout_of t) w1 of
            (Inl e, w2) \<Rightarrow>
              (Inl e, s\<lparr>world := w2, trace := trace s @
                 [GetStoredDevice (getUserId c (world s)) (newDeviceId (this s)),
                  Sleep (timeout_of t)]\<rparr>)
          | (Inr u, w2) \<Rightarrow>
             (case getStoredDevice cr (getUserId c w2) (newDeviceId (this s)) w2 of
                (Inl e, w3) \<Rightarrow>
                  (Inl e, s\<lparr>world := w3, trace := trace s @
                     [GetStoredDevice (getUserId c (world s)) (newDeviceId (this s)),
                      Sleep (timeout_of t),
                      GetStoredDevice (getUserId c w2) (newDeviceId (this s))]\<rparr>)
              | (Inr (Some d), w3) \<Rightarrow>
                  (case checkAndCrossSignDevice d (s\<lparr>world := w3, trace := trace s @
                     [GetStoredDevice (getUserId c (world s)) (newDeviceId (this s)),
                      Sleep (timeout_of t),
                      GetStoredDevice (getUserId c w2) (newDeviceId (this s))]\<rparr>) of
                     (r, s') \<Rightarrow> (map_sum id Some r, s'))
              | (Inr None, w3) \<Rightarrow>
                  (Inl (Error ''Device not online within timeout''),
                   s\<lparr>world := w3, trace := trace s @
                     [GetStoredDevice (getUserId c (world s)) (newDeviceId (this s)),
                      Sleep (timeout_of t),
                      GetStoredDevice (getUserId c w2) (newDeviceId (this s))]\<rparr>))))"
  using assms
  by (simp add: crossSign_def monad_defs Let_def Object_values_def timeout_of_def
      split: option.splits sum.splits prod.splits)

lemma check_trace:
  "\<exists>evs. trace (snd (checkAndCrossSignDevice d s)) = trace s @ evs
      \<and> filter is_GetStoredDevice evs = [] \<and> filter is_Sleep evs = []"
proof (cases "newDeviceKeys (this s)")
  case None
  then show ?thesis by (simp add: check_no_keys)
next
  case (Some reported)
  show ?thesis
    by (simp add: check_run [OF Some] split: option.splits prod.splits)
qed

lemma snd_case_prod_map: "snd (case p of (r, s') \<Rightarrow> (f r, s')) = snd p"
  by (cases p) simp

lemma crossSign_trace:
  "\<exists>evs. trace (snd (crossSign im t s)) = trace s @ evs
      \<and> length (filter is_GetStoredDevice evs) \<le> 2 \<and> length (filter is_Sleep evs) \<le> 1"
proof (cases "truthy (newDeviceId (this s))")
  case False
  then show ?thesis by (simp add: crossSign_no_device)
next
  case dev: True
  show ?thesis
  proof (cases "newDeviceKeys (this s) = None \<or> newDeviceKeys (this s) = Some []")
    case True
    with dev show ?thesis by (simp add: crossSign_nothing_to_sign)
  next
    case False
    then obtain ks where ks: "newDeviceKeys (this s) = Some ks" "ks \<noteq> []"
      by (cases "newDeviceKeys (this s)") auto
    show ?thesis
    proof (cases "cli (this s)")
      case None
      with dev ks show ?thesis by (simp add: crossSign_no_client)
    next
      case c: (Some c)
      show ?thesis
      proof (cases "crypto c")
        case None
        with dev ks c show ?thesis by (simp add: crossSign_no_crypto)
      next
        case cr: (Some cr)
        obtain r1 w1 where l1:
          "getStoredDevice cr (getUserId c (world s)) (newDeviceId (this s)) (world s) = (r1, w1)"
          by (cases "getStoredDevice cr (getUserId c (world s)) (newDeviceId (this s)) (world s)")
        note run = crossSign_lookup [OF dev ks c cr l1, of im t]
        show ?thesis
        proof (cases r1)
          case (Inl e)
          with run show ?thesis by simp
        next
          case (Inr found)
          show ?thesis
          proof (cases found)
            case (Some d)
            from check_trace [of d "s\<lparr>world := w1, trace := trace s @
                 [GetStoredDevice (getUserId c (world s)) (newDeviceId (this s))]\<rparr>"]
            obtain evs where "trace (snd (checkAndCrossSignDevice d (s\<lparr>world := w1, trace := trace s @
                 [GetStoredDevice (getUserId c (world s)) (newDeviceId (this s))]\<rparr>)))
                = trace s @ GetStoredDevice (getUserId c (world s)) (newDeviceId (this s)) # evs"
              and "filter is_GetStoredDevice evs = []" and "filter is_Sleep evs = []"
              by auto
            with run Inr Some show ?thesis
              by (simp add: snd_case_prod_map)
          next
            case None
            obtain r2 w2 where sl: "sleep im (timeout_of t) w1 = (r2, w2)"
              by (cases "sleep im (timeout_of t) w1")
            show ?thesis
            proof (cases r2)
              case (Inl e)
              with run Inr None sl show ?thesis by simp
            next
              case slept: (Inr u)
              obtain r3 w3 where l2:
                "getStoredDevice cr (getUserId c w2) (newDeviceId (this s)) w2 = (r3, w3)"
                by (cases "getStoredDevice cr (getUserId c w2) (newDeviceId (this s)) w2")
              show ?thesis
              proof (cases r3)
                case (Inl e)
                with run Inr None sl slept l2 show ?thesis by simp
              next
                case second: (Inr found')
                show ?thesis
                proof (cases found')
                  case None
                  with run Inr \<open>found = None\<close> sl slept l2 second show ?thesis by simp
                next
                  case (Some d)
                  from check_trace [of d "s\<lparr>world := w3, trace := trace s @
                     [GetStoredDevice (getUserId c (world s)) (newDeviceId (this s)),
                      Sleep (timeout_of t),
                      GetStoredDevice (getUserId c w2) (newDeviceId (this s))]\<rparr>"]
                  obtain evs where "trace (snd (checkAndCrossSignDevice d (s\<lparr>world := w3, trace := trace s @
                     [GetStoredDevice (getUserId c (world s)) (newDeviceId (this s)),
                      Sleep (timeout_of t),
                      GetStoredDevice (getUserId c w2) (newDeviceId (this s))]\<rparr>)))
                    = trace s @ GetStoredDevice (getUserId c (world s)) (newDeviceId (this s))
                        # Sleep (timeout_of t)
                        # GetStoredDevice (getUserId c w2) (newDeviceId (this s)) # evs"
                    and "filter is_GetStoredDevice evs = []" and "filter is_Sleep evs = []"
                    by auto
                  with run Inr \<open>found = None\<close> sl slept l2 second Some show ?thesis
                    by (simp add: snd_case_prod_map)
                qed
              qed
            qed
          qed
        qed
      qed
    qed
  qed
qed

text \<open>
  Claim C2. \<open>crossSign(timeout)\<close>: when \<open>newDeviceId\<close> is unset it throws
  \<open>No new device to sign\<close>. Otherwise, when \<open>newDeviceKeys\<close> is absent or empty it returns
  \<open>undefined\<close> with no error and no call at all (so no lookup). Otherwise (with a client
  that has a crypto module) it looks the device up by the user id and \<open>newDeviceId\<close>;
  when the device is found it runs the key-match check and returns its result; when it is
  not found it sleeps once, for the timeout (ten seconds when no argument is given), looks
  up once more, runs the key-match check when the device is now found, and throws
  \<open>Device not online within timeout\<close> when it is still absent. In every run, whatever
  the environment does, there are at most two lookups and at most one sleep.
\<close>

theorem crossSign_cases:
  "(\<not> truthy (newDeviceId (this s)) \<longrightarrow>
      crossSign im t s = (Inl (Error ''No new device to sign''), s))
   \<and> (truthy (newDeviceId (this s))
        \<and> (newDeviceKeys (this s) = None \<or> newDeviceKeys (this s) = Some []) \<longrightarrow>
      crossSign im t s = (Inr None, s))
   \<and> (truthy (newDeviceId (this s)) \<and> newDeviceKeys (this s) = Some ks \<and> ks \<noteq> []
        \<and> cli (this s) = Some c \<and> crypto c = Some cr \<longrightarrow>
      (\<forall>d w1.
         getStoredDevice cr (getUserId c (world s)) (newDeviceId (this s)) (world s)
           = (Inr (Some d), w1) \<longrightarrow>
         crossSign im t s =
           (case checkAndCrossSignDevice d
                   (s\<lparr>world := w1, trace := trace s @
                      [GetStoredDevice (getUserId c (world s)) (newDeviceId (this s))]\<rparr>) of
              (r, s') \<Rightarrow> (map_sum id Some r, s')))
      \<and> (\<forall>w1 w2 found w3.
         getStoredDevice cr (getUserId c (world s)) (newDeviceId (this s)) (world s)
           = (Inr None, w1)
         \<and> sleep im (timeout_of t) w1 = (Inr (), w2)
         \<and> getStoredDevice cr (getUserId c w2) (newDeviceId (this s)) w2 = (Inr found, w3) \<longrightarrow>
         crossSign im t s =
           (case found of
              Some d \<Rightarrow>
                (case checkAndCrossSignDevice d
                        (s\<lparr>world := w3, trace := trace s @
                           [GetStoredDevice (getUserId c (world s)) (newDeviceId (this s)),
                            Sleep (timeout_of t),
                            GetStoredDevice (getUserId c w2) (newDeviceId (this s))]\<rparr>) of
                   (r, s') \<Rightarrow> (map_sum id Some r, s'))
            | None \<Rightarrow>
                (Inl (Error ''Device not online within timeout''),
                 s\<lparr>world := w3, trace := trace s @
                    [GetStoredDevice (getUserId c (world s)) (newDeviceId (this s)),
                     Sleep (timeout_of t),
                     GetStoredDevice (getUserId c w2) (newDeviceId (this s))]\<rparr>))))
   \<and> timeout_of None = 10000 \<and> timeout_of (Some x) = x
   \<and> length (filter is_GetStoredDevice (events_since s (snd (crossSign im t s)))) \<le> 2
   \<and> length (filter is_Sleep (events_since s (snd (crossSign im t s)))) \<le> 1"
proof (intro conjI impI allI)
  assume "\<not> truthy (newDeviceId (this s))"
  then show "crossSign im t s = (Inl (Error ''No new device to sign''), s)"
    by (rule crossSign_no_device)
next
  assume "truthy (newDeviceId (this s))
        \<and> (newDeviceKeys (this s) = None \<or> newDeviceKeys (this s) = Some [])"
  then show "crossSign im t s = (Inr None, s)"
    by (intro crossSign_nothing_to_sign) simp_all
next
  fix d w1
  assume "truthy (newDeviceId (this s)) \<and> newDeviceKeys (this s) = Some ks \<and> ks \<noteq> []
        \<and> cli (this s) = Some c \<and> crypto c = Some cr"
    and l1: "getStoredDevice cr (getUserId c (world s)) (newDeviceId (this s)) (world s)
           = (Inr (Some d), w1)"
  then have "truthy (newDeviceId (this s))" "newDeviceKeys (this s) = Some ks" "ks \<noteq> []"
    "cli (this s) = Some c" "crypto c = Some cr"
    by simp_all
  from crossSign_lookup [OF this l1, of im t]
  show "crossSign im t s =
           (case checkAndCrossSignDevice d
                   (s\<lparr>world := w1, trace := trace s @
                      [GetStoredDevice (getUserId c (world s)) (newDeviceId (this s))]\<rparr>) of
              (r, s') \<Rightarrow> (map_sum id Some r, s'))"
    by simp
next
  fix w1 w2 found w3
  assume "truthy (newDeviceId (this s)) \<and> newDeviceKeys (this s) = Some ks \<and> ks \<noteq> []
        \<and> cli (this s) = Some c \<and> crypto c = Some cr"
    and rest: "getStoredDevice cr (getUserId c (world s)) (newDeviceId (this s)) (world s)
           = (Inr None, w1)
         \<and> sleep im (timeout_of t) w1 = (Inr (), w2)
         \<and> getStoredDevice cr (getUserId c w2) (newDeviceId (this s)) w2 = (Inr found, w3)"
  then have "truthy (newDeviceId (this s))" "newDeviceKeys (this s) = Some ks" "ks \<noteq> []"
    "cli (this s) = Some c" "crypto c = Some cr"
    "getStoredDevice cr (getUserId c (world s)) (newDeviceId (this s)) (world s) = (Inr None, w1)"
    by simp_all
  from crossSign_lookup [OF this, of im t] rest
  show "crossSign im t s =
           (case found of
              Some d \<Rightarrow>
                (case checkAndCrossSignDevice d
                        (s\<lparr>world := w3, trace := trace s @
                           [GetStoredDevice (getUserId c (world s)) (newDeviceId (this s)),
                            Sleep (timeout_of t),
                            GetStoredDevice (getUserId c w2) (newDeviceId (this s))]\<rparr>) of
                   (r, s') \<Rightarrow> (map_sum id Some r, s'))
            | None \<Rightarrow>
                (Inl (Error ''Device not online within timeout''),
                 s\<lparr>world := w3, trace := trace s @
                    [GetStoredDevice (getUserId c (world s)) (newDeviceId (this s)),
                     Sleep (timeout_of t),
                     GetStoredDevice (getUserId c w2) (newDeviceId (this s))]\<rparr>))"
    by (simp split: option.splits)
next
  show "timeout_of None = 10000" and "timeout_of (Some x) = x"
    by (simp_all add: timeout_of_def)
next
  from crossSign_trace [of im t s]
  obtain evs where "trace (snd (crossSign im t s)) = trace s @ evs"
    and "length (filter is_GetStoredDevice evs) \<le> 2" and "length (filter is_Sleep evs) \<le> 1"
    by blast
  then show "length (filter is_GetStoredDevice (events_since s (snd (crossSign im t s)))) \<le> 2"
    and "length (filter is_Sleep (events_since s (snd (crossSign im t s)))) \<le> 1"
    by (simp_all add: events_since_def)
qed

theorem crossSign_cases_witness:
  "crossSign ex_modules None
     (ex_state (ex_client 5000 [(''ed25519'', ''K1'')]) None (Some ''DEV1'')
        (Some [(''ed25519'', ''K1'')]) None)
   = (Inr (Some ''verified DEV1''),
      (ex_state (ex_client 5000 [(''ed25519'', ''K1'')]) None (Some ''DEV1'')
        (Some [(''ed25519'', ''K1'')]) None)
       \<lparr>world := 10000,
         trace := [GetStoredDevice ''@alice:example.org'' (Some ''DEV1''), Sleep 10000,
           GetStoredDevice ''@alice:example.org'' (Some ''DEV1''),
           SetDeviceVerification ''@alice:example.org'' (Some ''DEV1'') True False True]\<rparr>)
   \<and> crossSign ex_modules (Some 3000)
     (ex_state (ex_client 5000 [(''ed25519'', ''K1'')]) None (Some ''DEV1'')
        (Some [(''ed25519'', ''K1'')]) None)
   = (Inl (Error ''Device not online within timeout''),
      (ex_state (ex_client 5000 [(''ed25519'', ''K1'')]) None (Some ''DEV1'')
        (Some [(''ed25519'', ''K1'')]) None)
       \<lparr>world := 3000,
         trace := [GetStoredDevice ''@alice:example.org'' (Some ''DEV1''), Sleep 3000,
           GetStoredDevice ''@alice:example.org'' (Some ''DEV1'')]\<rparr>)
   \<and> crossSign ex_modules None
     (ex_state (ex_client 0 [(''ed25519'', ''K1'')]) None None (Some [(''ed25519'', ''K1'')]) None)
   = (Inl (Error ''No new device to sign''),
      ex_state (ex_client 0 [(''ed25519'', ''K1'')]) None None (Some [(''ed25519'', ''K1'')]) None)
   \<and> crossSign ex_modules None
     (ex_state (ex_client 0 [(''ed25519'', ''K1'')]) None (Some ''DEV1'') None None)
   = (Inr None,
      ex_state (ex_client 0 [(''ed25519'', ''K1'')]) None (Some ''DEV1'') None None)"
proof -
  let ?cl = "ex_client 5000 [(''ed25519'', ''K1'')]"
  let ?cr = "ex_crypto 5000 [(''ed25519'', ''K1'')]"
  let ?s = "ex_state ?cl None (Some ''DEV1'') (Some [(''ed25519'', ''K1'')]) None"
  have ready: "truthy (newDeviceId (this ?s)) \<and> newDeviceKeys (this ?s) = Some [(''ed25519'', ''K1'')]
      \<and> [(''ed25519'', ''K1'')] \<noteq> ([] :: keys_record)
      \<and> cli (this ?s) = Some ?cl \<and> crypto ?cl = Some ?cr"
    by (simp add: ex_state_def ex_client_def truthy_def truthy_string_def)
  have chk: "checkAndCrossSignDevice \<lparr>keys = [(''ed25519'', ''K1'')]\<rparr>
       (?s\<lparr>world := 10000, trace := [GetStoredDevice ''@alice:example.org'' (Some ''DEV1''),
           Sleep 10000, GetStoredDevice ''@alice:example.org'' (Some ''DEV1'')]\<rparr>)
     = (Inr ''verified DEV1'',
        ?s\<lparr>world := 10000, trace := [GetStoredDevice ''@alice:example.org'' (Some ''DEV1''),
           Sleep 10000, GetStoredDevice ''@alice:example.org'' (Some ''DEV1''),
           SetDeviceVerification ''@alice:example.org'' (Some ''DEV1'') True False True]\<rparr>)"
    by (simp add: checkAndCrossSignDevice_def monad_defs ex_defs Object_keys_def get_prop_def
          String_of_def)
  have uid: "getUserId ?cl w = ''@alice:example.org''" for w
    by (simp add: ex_client_def)
  have start: "world ?s = 0" "trace ?s = []" "newDeviceId (this ?s) = Some ''DEV1''"
    by (simp_all add: ex_state_def)
  have lookup: "getStoredDevice ?cr u d w =
      (Inr (if 5000 \<le> w then Some \<lparr>keys = [(''ed25519'', ''K1'')]\<rparr> else None), w)" for u d w
    by (simp add: ex_crypto_def)
  have nap: "sleep ex_modules x w = (Inr (), w + x)" for x w
    by (simp add: ex_modules_def)
  have "getStoredDevice ?cr (getUserId ?cl (world ?s)) (newDeviceId (this ?s)) (world ?s)
           = (Inr None, 0)
         \<and> sleep ex_modules (timeout_of None) 0 = (Inr (), 10000)
         \<and> getStoredDevice ?cr (getUserId ?cl 10000) (newDeviceId (this ?s)) 10000
           = (Inr (Some \<lparr>keys = [(''ed25519'', ''K1'')]\<rparr>), 10000)"
    by (simp add: uid start lookup nap timeout_of_def)
  from crossSign_cases [where s = ?s and im = ex_modules and t = None
      and ks = "[(''ed25519'', ''K1'')]" and c = ?cl and cr = ?cr,
      THEN conjunct2, THEN conjunct2, THEN conjunct1, THEN mp, OF ready,
      THEN conjunct2, THEN spec, THEN spec, THEN spec, THEN spec, THEN mp, OF this]
  have late: "crossSign ex_modules None ?s
     = (Inr (Some ''verified DEV1''),
        ?s\<lparr>world := 10000, trace := [GetStoredDevice ''@alice:example.org'' (Some ''DEV1''),
           Sleep 10000, GetStoredDevice ''@alice:example.org'' (Some ''DEV1''),
           SetDeviceVerification ''@alice:example.org'' (Some ''DEV1'') True False True]\<rparr>)"
    by (simp add: uid start timeout_of_def chk)
  have "getStoredDevice ?cr (getUserId ?cl (world ?s)) (newDeviceId (this ?s)) (world ?s)
           = (Inr None, 0)
         \<and> sleep ex_modules (timeout_of (Some 3000)) 0 = (Inr (), 3000)
         \<and> getStoredDevice ?cr (getUserId ?cl 3000) (newDeviceId (this ?s)) 3000
           = (Inr None, 3000)"
    by (simp add: uid start lookup nap timeout_of_def)
  from crossSign_cases [where s = ?s and im = ex_modules and t = "Some 3000"
      and ks = "[(''ed25519'', ''K1'')]" and c = ?cl and cr = ?cr,
      THEN conjunct2, THEN conjunct2, THEN conjunct1, THEN mp, OF ready,
      THEN conjunct2, THEN spec, THEN spec, THEN spec, THEN spec, THEN mp, OF this]
  have never: "crossSign ex_modules (Some 3000) ?s
     = (Inl (Error ''Device not online within timeout''),
        ?s\<lparr>world := 3000, trace := [GetStoredDevice ''@alice:example.org'' (Some ''DEV1''),
           Sleep 3000, GetStoredDevice ''@alice:example.org'' (Some ''DEV1'')]\<rparr>)"
    by (simp add: uid start timeout_of_def)
  from crossSign_cases [where s = "ex_state (ex_client 0 [(''ed25519'', ''K1'')]) None None
        (Some [(''ed25519'', ''K1'')]) None" and im = ex_modules and t = None, THEN conjunct1]
  have nodev: "crossSign ex_modules None
     (ex_state (ex_client 0 [(''ed25519'', ''K1'')]) None None (Some [(''ed25519'', ''K1'')]) None)
   = (Inl (Error ''No new device to sign''),
      ex_state (ex_client 0 [(''ed25519'', ''K1'')]) None None (Some [(''ed25519'', ''K1'')]) None)"
    by (simp add: ex_state_def truthy_def truthy_string_def)
  from crossSign_cases [where s = "ex_state (ex_client 0 [(''ed25519'', ''K1'')]) None
        (Some ''DEV1'') None None" and im = ex_modules and t = None,
        THEN conjunct2, THEN conjunct1]
  have nokeys: "crossSign ex_modules None
     (ex_state (ex_client 0 [(''ed25519'', ''K1'')]) None (Some ''DEV1'') None None)
   = (Inr None,
      ex_state (ex_client 0 [(''ed25519'', ''K1'')]) None (Some ''DEV1'') None None)"
    by (simp add: ex_state_def truthy_def truthy_string_def)
  from late never nodev nokeys show ?thesis by (intro conjI)
qed

end
